theory Spec2Isabelle
  imports Complex_Main
begin

section \<open>JavaScript values\<close>

text \<open>
  The two servers (\<^verbatim>\<open>src/index.js\<close>, called variant A below, and
  \<^verbatim>\<open>src/unnamed/part_000\<close>, variant B) handle JSON payloads of the storage
  provider without checking their shape, so the payload is modelled as an arbitrary
  JavaScript value. A number is the rational value of the parsed double. An object is
  the list of its own properties, looked up by key. A \<^typ>\<open>string\<close> is the sequence
  of the code units of a JavaScript string.
\<close>

datatype jsval =
    JUndefined
  | JNull
  | JBool bool
  | JNum rat
  | JStr string
  | JArr "jsval list"
  | JObj "(string \<times> jsval) list"

text \<open>A thrown exception, with its \<^verbatim>\<open>message\<close>.\<close>

datatype js_error = Error (message: string)

text \<open>\<^verbatim>\<open>ToBoolean\<close>: what \<^verbatim>\<open>!x\<close>, \<^verbatim>\<open>x && y\<close> and \<^verbatim>\<open>x || y\<close> test.\<close>

fun truthy :: "jsval \<Rightarrow> bool" where
  "truthy JUndefined = False"
| "truthy JNull = False"
| "truthy (JBool b) = b"
| "truthy (JNum n) = (n \<noteq> 0)"
| "truthy (JStr s) = (s \<noteq> [])"
| "truthy (JArr xs) = True"
| "truthy (JObj kvs) = True"

text \<open>\<^verbatim>\<open>a || b\<close>.\<close>

definition js_or :: "jsval \<Rightarrow> jsval \<Rightarrow> jsval" where
  "js_or a b = (if truthy a then a else b)"

text \<open>
  \<^verbatim>\<open>v.k\<close> for the data properties the servers read (\<^verbatim>\<open>errno\<close>,
  \<^verbatim>\<open>errmsg\<close>, \<^verbatim>\<open>list\<close>, \<^verbatim>\<open>server_filename\<close>, \<^verbatim>\<open>size\<close>,
  \<^verbatim>\<open>isdir\<close>), none of which a built-in prototype defines: reading one from
  \<^verbatim>\<open>null\<close> or \<^verbatim>\<open>undefined\<close> throws a TypeError (the wording of the
  message is the engine's), from an object it gives the own property or
  \<^verbatim>\<open>undefined\<close>, from any other value \<^verbatim>\<open>undefined\<close>.
\<close>

fun getProp :: "jsval \<Rightarrow> string \<Rightarrow> js_error + jsval" where
  "getProp JUndefined k =
     Inl (Error (''Cannot read properties of undefined (reading '' @ [CHR 0x27] @ k @ [CHR 0x27] @ '')''))"
| "getProp JNull k =
     Inl (Error (''Cannot read properties of null (reading '' @ [CHR 0x27] @ k @ [CHR 0x27] @ '')''))"
| "getProp (JObj kvs) k = Inr (case map_of kvs k of None \<Rightarrow> JUndefined | Some v \<Rightarrow> v)"
| "getProp v k = Inr JUndefined"

text \<open>\<^verbatim>\<open>v.length\<close>: arrays and strings have one of their own.\<close>

fun js_length :: "jsval \<Rightarrow> js_error + jsval" where
  "js_length (JArr xs) = Inr (JNum (of_nat (length xs)))"
| "js_length (JStr s) = Inr (JNum (of_nat (length s)))"
| "js_length v = getProp v ''length''"

section \<open>Strings and the regular expressions of the servers\<close>

text \<open>\<^verbatim>\<open>s.startsWith(p)\<close>.\<close>

definition startsWith :: "string \<Rightarrow> string \<Rightarrow> bool" where
  "startsWith s p = (take (length p) s = p)"

text \<open>
  \<^verbatim>\<open>s.match(/lit([cls]+)/)\<close>, the first capture group of the leftmost match: the
  engine tries each start position in turn; at a position the literal must follow and then
  the greedy class takes the longest run, which must not be empty. \<open>None\<close> is
  \<^verbatim>\<open>null\<close>, no match.
\<close>

fun matchAfter :: "string \<Rightarrow> (char \<Rightarrow> bool) \<Rightarrow> string \<Rightarrow> string option" where
  "matchAfter lit cls [] = None"
| "matchAfter lit cls (c # cs) =
     (let tok = takeWhile cls (drop (length lit) (c # cs))
      in if startsWith (c # cs) lit \<and> tok \<noteq> [] then Some tok else matchAfter lit cls cs)"

text \<open>\<^verbatim>\<open>/surl=([^&]+)/\<close>\<close>

definition surlMatch :: "string \<Rightarrow> string option" where
  "surlMatch s = matchAfter ''surl='' (\<lambda>c. c \<noteq> CHR ''&'') s"

text \<open>\<^verbatim>\<open>/\/s\/([^\/\?&]+)/\<close>\<close>

definition sMatch :: "string \<Rightarrow> string option" where
  "sMatch s = matchAfter ''/s/'' (\<lambda>c. c \<noteq> CHR ''/'' \<and> c \<noteq> CHR ''?'' \<and> c \<noteq> CHR ''&'') s"

text \<open>\<^verbatim>\<open>s.includes(sub)\<close>: \<open>sub\<close> occurs in \<open>s\<close>.\<close>

fun includes_str :: "string \<Rightarrow> string \<Rightarrow> bool" where
  "includes_str [] sub = (sub = [])"
| "includes_str (c # cs) sub = (startsWith (c # cs) sub \<or> includes_str cs sub)"

text \<open>
  \<^verbatim>\<open>/(?:terabox|tera|1024tera|4funbox|nephobox|mirrobox|freeterabox)/.test(s)\<close>
  (variant B, line 201): an unanchored alternation of literals matches when one of them
  occurs.
\<close>

definition isTeraboxUrl :: "string \<Rightarrow> bool" where
  "isTeraboxUrl s =
     list_ex (includes_str s)
       [''terabox'', ''tera'', ''1024tera'', ''4funbox'', ''nephobox'', ''mirrobox'', ''freeterabox'']"

text \<open>
  The prefix rule of both variants (A lines 84 to 86, B line 114):
  \<^verbatim>\<open>s.startsWith('1') && s.length > 1 ? s.substring(1) : s\<close>.
\<close>

definition stripPrefix1 :: "string \<Rightarrow> string" where
  "stripPrefix1 s = (if startsWith s ''1'' \<and> length s > 1 then drop 1 s else s)"

section \<open>The platform: URL objects and outbound requests\<close>

text \<open>
  A parsed \<^verbatim>\<open>URL\<close> object, by its components. The query and the fragment are
  absent or a string, which may be empty (a URL that ends in \<^verbatim>\<open>?\<close> has the empty
  query); \<open>searchParams\<close> is the list of the decoded name and value pairs of the
  query, in order.
\<close>

record url =
  protocol :: string
  username :: string
  password :: string
  hostname :: string
  port :: string
  pathname :: string
  query :: "string option"
  fragment :: "string option"
  searchParams :: "(string \<times> string) list"

record request =
  req_method :: string
  req_url :: string
  req_headers :: "(string \<times> string) list"

text \<open>
  What \<^verbatim>\<open>await fetch(url, options)\<close> gives: the promise rejects with an error
  message, or resolves to a response with its \<^verbatim>\<open>ok\<close> flag and what
  \<^verbatim>\<open>await response.json()\<close> gives (a rejection with its message, or the parsed
  value).
\<close>

datatype fetch_outcome =
    Rejected string
  | Response bool "string + jsval"

text \<open>
  The runtime and the network are parameters of the model: \<open>URL_parse\<close> is
  \<^verbatim>\<open>new URL(s)\<close> (\<open>None\<close> when it throws), \<open>URL_setHostname\<close> is the
  assignment \<^verbatim>\<open>urlObj.hostname = h\<close> (a setter of the runtime, which parses
  \<open>h\<close> as a host and may change it or refuse it, leaving the URL as it was),
  \<open>URL_toString\<close> is \<^verbatim>\<open>urlObj.toString()\<close>, and \<open>fetch\<close> answers each
  outbound request.
\<close>

record platform =
  URL_parse :: "string \<Rightarrow> url option"
  URL_setHostname :: "url \<Rightarrow> string \<Rightarrow> url"
  URL_toString :: "url \<Rightarrow> string"
  fetch :: "request \<Rightarrow> fetch_outcome"

definition DEFAULT_HOST :: string where
  "DEFAULT_HOST = ''dm.nephobox.com''"

definition TERABOX_DOMAINS :: "string list" where
  "TERABOX_DOMAINS =
    [''terafileshare.com'', ''www.terafileshare.com'',
     ''terabox.com'', ''www.terabox.com'',
     ''terabox.club'', ''www.terabox.club'',
     ''teraboxlink.com'', ''4funbox.com'', ''www.4funbox.com'',
     ''terasharelink.com'', ''1024terabox.com'', ''www.1024terabox.com'',
     ''terabox.app'', ''www.terabox.app'', ''terabox.fun'',
     ''1024tera.com'', ''1024tera.co'', ''1024box.com'',
     ''teraboxshare.com'', ''teraboxapp.com'', ''momerybox.com'',
     ''4funbox.co'', ''mirrobox.com'', ''nephobox.com'',
     ''freeterabox.com'', ''tibibox.com'']"

text \<open>
  Variant B, lines 37 to 48. A URL that does not parse, or whose host is not an alias, is
  returned as the string it came in.
\<close>

definition convertToDefaultHost :: "platform \<Rightarrow> string \<Rightarrow> string \<Rightarrow> string" where
  "convertToDefaultHost P u defaultHost =
     (case URL_parse P u of
        None \<Rightarrow> u
      | Some urlObj \<Rightarrow>
          if hostname urlObj \<in> set TERABOX_DOMAINS
          then URL_toString P (URL_setHostname P urlObj defaultHost)
          else u)"

section \<open>Provider client\<close>

text \<open>The object a lookup returns: \<^verbatim>\<open>{success: true, data}\<close> or
  \<^verbatim>\<open>{success: false, errno, error}\<close>.\<close>

datatype lookup_result =
    success: Success (data: jsval)
  | Failure (errno: jsval) (lookup_error: jsval)

text \<open>The request of the primary lookup, the same in both variants.\<close>

definition primaryRequest :: "string \<Rightarrow> string \<Rightarrow> string \<Rightarrow> request" where
  "primaryRequest shortUrl cookie host =
     \<lparr>req_method = ''GET'',
      req_url = ''https://'' @ host @ ''/api/shorturlinfo?clienttype=1&root=1&shorturl='' @ shortUrl,
      req_headers =
        [(''Accept'', ''*/*''),
         (''Accept-Language'', ''en-IN,en;q=0.9''),
         (''Connection'', ''keep-alive''),
         (''Cookie'', cookie),
         (''User-Agent'', ''dubox;4.7.1;iPhone16ProMax;ios-iphone;26.0.1;en_IN'')]\<rparr>"

text \<open>The request of the fallback lookup (variant B, lines 80 to 85).\<close>

definition fallbackRequest :: "string \<Rightarrow> request" where
  "fallbackRequest shortUrl =
     \<lparr>req_method = ''GET'',
      req_url = ''https://www.nephobox.com/share/list?clienttype=5&shorturl='' @ shortUrl @ ''&root=1'',
      req_headers = [(''Accept'', ''application/json, text/plain, */*'')]\<rparr>"

text \<open>
  The body of the \<^verbatim>\<open>try\<close> block of the three lookup functions, which differ in
  two literals only: the message used when the payload has no \<^verbatim>\<open>errmsg\<close>, and
  the message for a response that is not \<^verbatim>\<open>ok\<close>. \<open>Inl\<close> is an exception
  thrown inside the block.
\<close>

definition lookupBody :: "string \<Rightarrow> string \<Rightarrow> fetch_outcome \<Rightarrow> js_error + lookup_result" where
  "lookupBody apiMsg failMsg out =
     (case out of
        Rejected m \<Rightarrow> Inl (Error m)
      | Response ok b \<Rightarrow>
          if ok then
            (case b of
               Inl m \<Rightarrow> Inl (Error m)
             | Inr d \<Rightarrow>
                 if truthy d \<and> getProp d ''errno'' = Inr (JNum 0) then Inr (Success d)
                 else
                   (case getProp d ''errno'' of
                      Inl e \<Rightarrow> Inl e
                    | Inr en \<Rightarrow>
                        (case getProp d ''errmsg'' of
                           Inl e \<Rightarrow> Inl e
                         | Inr em \<Rightarrow> Inr (Failure en (js_or em (JStr apiMsg))))))
          else Inr (Failure JUndefined (JStr failMsg)))"

text \<open>
  Each lookup returns the requests it sent together with its result. Variant A, lines 30
  to 56.
\<close>

definition fetchShortUrlInfo_A ::
  "platform \<Rightarrow> string \<Rightarrow> string \<Rightarrow> string \<Rightarrow> request list \<times> lookup_result" where
  "fetchShortUrlInfo_A P shortUrl cookie host =
     (let r = primaryRequest shortUrl cookie host
      in ([r],
          case lookupBody ''API error'' ''Request failed'' (fetch P r) of
            Inl e \<Rightarrow> Failure JUndefined (JStr (''Network error: '' @ message e))
          | Inr res \<Rightarrow> res))"

text \<open>Variant B, lines 51 to 76.\<close>

definition fetchShortUrlInfo_B ::
  "platform \<Rightarrow> string \<Rightarrow> string \<Rightarrow> string \<Rightarrow> request list \<times> lookup_result" where
  "fetchShortUrlInfo_B P shortUrl cookie host =
     (let r = primaryRequest shortUrl cookie host
      in ([r],
          case lookupBody ''API error'' ''Request failed'' (fetch P r) of
            Inl e \<Rightarrow> Failure JUndefined (JStr ''Network error'')
          | Inr res \<Rightarrow> res))"

text \<open>Variant B, lines 79 to 98.\<close>

definition fetchShareListFallback :: "platform \<Rightarrow> string \<Rightarrow> request list \<times> lookup_result" where
  "fetchShareListFallback P shortUrl =
     (let r = fallbackRequest shortUrl
      in ([r],
          case lookupBody ''Fallback error'' ''Fallback failed'' (fetch P r) of
            Inl e \<Rightarrow> Failure JUndefined (JStr ''Network error'')
          | Inr res \<Rightarrow> res))"

section \<open>Result mapper\<close>

record file_entry =
  name :: jsval
  fsize :: jsval
  isdir :: jsval

text \<open>
  The object \<^verbatim>\<open>checkUrl\<close> returns: \<^verbatim>\<open>{exists, total_files, files}\<close> or
  \<^verbatim>\<open>{exists: false, error}\<close>. The fields of the first, read from the
  second, are \<^verbatim>\<open>undefined\<close>.
\<close>

datatype check_result =
    Listing (exists: bool) (total_files: jsval) (files: "file_entry list")
  | Failed (error: jsval)
where
  "exists (Failed e) = False"
| "total_files (Failed e) = JUndefined"
| "files (Failed e) = []"
| "error (Listing x n fs) = JUndefined"

text \<open>
  \<^verbatim>\<open>f => ({name: f.server_filename, size: f.size, isdir: f.isdir})\<close>; it throws
  when the entry is \<^verbatim>\<open>null\<close>.
\<close>

definition toFileEntry :: "jsval \<Rightarrow> js_error + file_entry" where
  "toFileEntry f =
     (case getProp f ''server_filename'' of
        Inl e \<Rightarrow> Inl e
      | Inr n \<Rightarrow>
          (case getProp f ''size'' of
             Inl e \<Rightarrow> Inl e
           | Inr s \<Rightarrow>
               (case getProp f ''isdir'' of
                  Inl e \<Rightarrow> Inl e
                | Inr d \<Rightarrow> Inr \<lparr>name = n, fsize = s, isdir = d\<rparr>)))"

text \<open>\<^verbatim>\<open>Array.prototype.map\<close> with that callback: the first entry that throws ends it.\<close>

fun mapEntries :: "jsval list \<Rightarrow> js_error + file_entry list" where
  "mapEntries [] = Inr []"
| "mapEntries (f # fs) =
     (case toFileEntry f of
        Inl e \<Rightarrow> Inl e
      | Inr x \<Rightarrow> (case mapEntries fs of Inl e \<Rightarrow> Inl e | Inr xs \<Rightarrow> Inr (x # xs)))"

text \<open>
  \<^verbatim>\<open>fileList.map(...)\<close> for a truthy \<^verbatim>\<open>fileList\<close>: a value that is not an
  array has no function \<^verbatim>\<open>map\<close> (a JSON payload holds no function), and the call
  throws.
\<close>

fun mapFiles :: "jsval \<Rightarrow> js_error + file_entry list" where
  "mapFiles (JArr xs) = mapEntries xs"
| "mapFiles v = Inl (Error ''fileList.map is not a function'')"

text \<open>
  Variant A, lines 92 to 109, on the payload of a successful lookup; \<open>Inl\<close> is an
  exception, which the \<^verbatim>\<open>catch\<close> of \<^verbatim>\<open>checkUrl\<close> receives.
\<close>

definition resultMapper_A :: "jsval \<Rightarrow> js_error + check_result" where
  "resultMapper_A d =
     (case getProp d ''list'' of
        Inl e \<Rightarrow> Inl e
      | Inr l \<Rightarrow>
          (let fileList = js_or l (JArr [])
           in case js_length fileList of
                Inl e \<Rightarrow> Inl e
              | Inr n \<Rightarrow>
                  if n = JNum 0 then Inr (Failed (JStr ''No files found''))
                  else
                    (case mapFiles fileList of
                       Inl e \<Rightarrow> Inl e
                     | Inr fs \<Rightarrow> Inr (Listing True n fs))))"

text \<open>
  Variant B, lines 126 to 135 and again 142 to 151. The object literal evaluates
  \<^verbatim>\<open>fileList.length > 0\<close> and \<^verbatim>\<open>fileList.length\<close>, which neither throw
  nor have an effect, and then \<^verbatim>\<open>fileList.map(...)\<close>; when \<^verbatim>\<open>fileList\<close>
  is not an array the call throws and the two values are dropped, so they are written
  here for an array only.
\<close>

definition resultMapper_B :: "jsval \<Rightarrow> js_error + check_result" where
  "resultMapper_B d =
     (case getProp d ''list'' of
        Inl e \<Rightarrow> Inl e
      | Inr l \<Rightarrow>
          (case js_or l (JArr []) of
             JArr xs \<Rightarrow>
               (case mapEntries xs of
                  Inl e \<Rightarrow> Inl e
                | Inr fs \<Rightarrow> Inr (Listing (length xs > 0) (JNum (of_nat (length xs))) fs))
           | v \<Rightarrow> Inl (Error ''fileList.map is not a function'')))"

section \<open>checkUrl\<close>

text \<open>
  Both return the outbound requests they sent, in order, and the result. Variant A, lines
  62 to 120: \<^verbatim>\<open>new URL(url)\<close> must succeed; the identifier is the first
  \<^verbatim>\<open>surl\<close> parameter of the query when there is one, else the token after
  \<^verbatim>\<open>/s/\<close> in the string (lines 65 to 81, which return early, \<open>Inl\<close>, when
  there is none); the prefix rule applies to either.
\<close>

definition extractShortUrl_A :: "platform \<Rightarrow> string \<Rightarrow> check_result + string" where
  "extractShortUrl_A P u =
     (case URL_parse P u of
        None \<Rightarrow> Inl (Failed (JStr ''Invalid URL format''))
      | Some urlObj \<Rightarrow>
          (case (case map_of (searchParams urlObj) ''surl'' of
                   Some v \<Rightarrow> Some v
                 | None \<Rightarrow> sMatch u) of
             None \<Rightarrow> Inl (Failed (JStr ''Could not parse Short URL''))
           | Some shortUrl \<Rightarrow>
               if shortUrl = [] then Inl (Failed (JStr ''Could not parse Short URL''))
               else Inr shortUrl))"

definition checkUrl_A :: "platform \<Rightarrow> string \<Rightarrow> string \<Rightarrow> string \<Rightarrow> request list \<times> check_result" where
  "checkUrl_A P u cookie host =
     (case extractShortUrl_A P u of
        Inl early \<Rightarrow> ([], early)
      | Inr shortUrl \<Rightarrow>
          (let apiShortUrl = stripPrefix1 shortUrl;
               (sent, result) = fetchShortUrlInfo_A P apiShortUrl cookie host
           in case result of
                Success d \<Rightarrow>
                  (sent,
                   case resultMapper_A d of
                     Inl e \<Rightarrow> Failed (JStr (''Check failed: '' @ message e))
                   | Inr r \<Rightarrow> r)
              | Failure en er \<Rightarrow>
                  (sent, Failed (js_or er (JStr ''File not found or deleted'')))))"

text \<open>
  Variant B, lines 101 to 162: the URL is first rewritten to the API host; the identifier
  is what follows the first \<^verbatim>\<open>surl=\<close>, taken as it is, else the token after
  \<^verbatim>\<open>/s/\<close>, to which alone the prefix rule applies; the fallback lookup runs
  when the primary one did not succeed.
\<close>

definition extractShortUrl_B :: "string \<Rightarrow> string option" where
  "extractShortUrl_B normalizedUrl =
     (case surlMatch normalizedUrl of
        Some m \<Rightarrow> Some m
      | None \<Rightarrow>
          (case sMatch normalizedUrl of
             Some rawUrl \<Rightarrow> Some (stripPrefix1 rawUrl)
           | None \<Rightarrow> None))"

definition checkUrl_B :: "platform \<Rightarrow> string \<Rightarrow> string \<Rightarrow> string \<Rightarrow> request list \<times> check_result" where
  "checkUrl_B P u cookie host =
     (let normalizedUrl = convertToDefaultHost P u host
      in case extractShortUrl_B normalizedUrl of
           None \<Rightarrow> ([], Failed (JStr ''Invalid URL''))
         | Some shortUrl \<Rightarrow>
             if shortUrl = [] then ([], Failed (JStr ''Invalid URL''))
             else
               (let (sent1, primaryResult) = fetchShortUrlInfo_B P shortUrl cookie host
                in case primaryResult of
                     Success d \<Rightarrow>
                       (sent1,
                        case resultMapper_B d of
                          Inl e \<Rightarrow> Failed (JStr ''Check failed'')
                        | Inr r \<Rightarrow> r)
                   | Failure en er \<Rightarrow>
                       (let (sent2, fallbackResult) = fetchShareListFallback P shortUrl
                        in case fallbackResult of
                             Success d \<Rightarrow>
                               (sent1 @ sent2,
                                case resultMapper_B d of
                                  Inl e \<Rightarrow> Failed (JStr ''Check failed'')
                                | Inr r \<Rightarrow> r)
                           | Failure en2 er2 \<Rightarrow>
                               (sent1 @ sent2, Failed (JStr ''File not found or deleted'')))))"

section \<open>HTTP front door\<close>

text \<open>
  The query of \<^verbatim>\<open>GET /\<close>: each parameter is absent (\<^verbatim>\<open>undefined\<close>) or a
  string, which may be empty (\<^verbatim>\<open>?url=\<close>). A parameter that is repeated or
  written with brackets, which the framework parses to an array or an object, is not
  modelled.
\<close>

record query =
  q_url :: "string option"
  q_cookie :: "string option"
  q_host :: "string option"

text \<open>\<^verbatim>\<open>!x\<close> for such a parameter: absent, or the empty string.\<close>

definition js_not :: "string option \<Rightarrow> bool" where
  "js_not x = (case x of None \<Rightarrow> True | Some s \<Rightarrow> s = [])"

text \<open>\<^verbatim>\<open>x || dflt\<close> for such a parameter.\<close>

definition orDefault :: "string option \<Rightarrow> string \<Rightarrow> string" where
  "orDefault x dflt = (case x of None \<Rightarrow> dflt | Some s \<Rightarrow> if s = [] then dflt else s)"

text \<open>
  \<^verbatim>\<open>if (!cookie.startsWith('ndus=')) cookie = `ndus=${cookie}`\<close> (A lines 170 to
  172, B lines 196 to 198).
\<close>

definition normalizeCookie :: "string \<Rightarrow> string" where
  "normalizeCookie cookie = (if \<not> startsWith cookie ''ndus='' then ''ndus='' @ cookie else cookie)"

datatype body =
    Document jsval
  | ErrorJson string
  | ResultJson check_result

record response =
  status :: nat
  body :: body

definition infoDocument_A :: jsval where
  "infoDocument_A =
     JObj [(''name'', JStr ''TeraBox URL Checker''),
           (''version'', JStr ''1.0.0''),
           (''description'', JStr ''Lightweight API to check if TeraBox files exist''),
           (''usage'', JStr ''GET /?url=TERABOX_URL&cookie=ndus=YOUR_COOKIE''),
           (''endpoints'', JObj [(''/'', JStr ''Check URL''), (''/health'', JStr ''Health check'')]),
           (''response'',
            JObj [(''exists'', JStr ''true/false''),
                  (''total_files'', JStr ''number''),
                  (''files'', JStr ''[{name, size, isdir}]'')])]"

definition infoDocument_B :: jsval where
  "infoDocument_B =
     JObj [(''name'', JStr ''TeraBox URL Checker''),
           (''version'', JStr ''1.0.0''),
           (''description'', JStr ''Lightweight API to check if TeraBox files exist''),
           (''usage'', JStr ''GET /?url=TERABOX_URL&cookie=YOUR_COOKIE''),
           (''example'', JStr ''/?url=https://1024terabox.com/s/1xxxxx&cookie=ndus=YOUR_NDUS_VALUE''),
           (''response'',
            JObj [(''exists'', JStr ''true/false''),
                  (''total_files'', JStr ''number''),
                  (''files'', JStr ''array of {name, size, isdir}'')])]"

text \<open>
  Variant A, lines 136 to 177. Past the two checks both parameters are non-empty strings.
\<close>

definition handler_A :: "platform \<Rightarrow> query \<Rightarrow> request list \<times> response" where
  "handler_A P q =
     (let host = orDefault (q_host q) DEFAULT_HOST
      in if js_not (q_url q) \<and> js_not (q_cookie q)
         then ([], \<lparr>status = 200, body = Document infoDocument_A\<rparr>)
         else if js_not (q_url q)
         then ([], \<lparr>status = 400, body = ErrorJson ''Missing 'url' parameter''\<rparr>)
         else if js_not (q_cookie q)
         then ([], \<lparr>status = 401, body = ErrorJson ''Missing 'cookie' parameter''\<rparr>)
         else
           (let teraUrl = the (q_url q);
                cookie = normalizeCookie (the (q_cookie q));
                (sent, result) = checkUrl_A P teraUrl cookie host
            in (sent, \<lparr>status = 200, body = ResultJson result\<rparr>)))"

text \<open>Variant B, lines 169 to 208.\<close>

definition handler_B :: "platform \<Rightarrow> query \<Rightarrow> request list \<times> response" where
  "handler_B P q =
     (let host = orDefault (q_host q) DEFAULT_HOST
      in if js_not (q_url q)
         then ([], \<lparr>status = 200, body = Document infoDocument_B\<rparr>)
         else if js_not (q_cookie q)
         then ([], \<lparr>status = 401, body = ErrorJson ''Missing 'cookie' parameter''\<rparr>)
         else
           (let teraUrl = the (q_url q);
                cookie = normalizeCookie (the (q_cookie q))
            in if \<not> isTeraboxUrl teraUrl
               then ([], \<lparr>status = 400, body = ErrorJson ''Invalid TeraBox URL''\<rparr>)
               else
                 (let (sent, result) = checkUrl_B P teraUrl cookie host
                  in (sent, \<lparr>status = 200, body = ResultJson result\<rparr>))))"

section \<open>Example runs\<close>

text \<open>
  A runtime for the concrete runs below. \<open>href\<close> is the serialisation of a URL that has
  a host. \<open>example_urls\<close> holds the parses of the URLs of the runs, and
  \<open>example_hosts\<close> what the host name setter makes of three target hosts: the first is
  taken as written, the second is put in lower case, the third is cut at the slash. The
  target \<^verbatim>\<open>h:8080\<close>, which names a port, is not among them: the setter refuses
  it. \<open>one_file\<close> is the provider payload
  \<^verbatim>\<open>{errno: 0, list: [{server_filename: "a.txt", size: 10, isdir: 0}]}\<close>.
\<close>

definition href :: "url \<Rightarrow> string" where
  "href u =
     protocol u @ ''//'' @
     (if username u = [] \<and> password u = [] then []
      else username u @ (if password u = [] then [] else '':'' @ password u) @ ''@'') @
     hostname u @ (if port u = [] then [] else '':'' @ port u) @
     pathname u @
     (case query u of None \<Rightarrow> [] | Some q \<Rightarrow> ''?'' @ q) @
     (case fragment u of None \<Rightarrow> [] | Some f \<Rightarrow> ''#'' @ f)"

definition https :: "string \<Rightarrow> string \<Rightarrow> string option \<Rightarrow> (string \<times> string) list \<Rightarrow> url" where
  "https h p q ps =
     \<lparr>protocol = ''https:'', username = [], password = [], hostname = h, port = [],
      pathname = p, query = q, fragment = None, searchParams = ps\<rparr>"

definition example_urls :: "string \<Rightarrow> url option" where
  "example_urls =
     [''https://www.terabox.com/s/1abcXYZ'' \<mapsto> https ''www.terabox.com'' ''/s/1abcXYZ'' None [],
      ''https://dm.nephobox.com/s/1abcXYZ'' \<mapsto> https ''dm.nephobox.com'' ''/s/1abcXYZ'' None [],
      ''https://www.terabox.com/sharing/link?surl=1abc'' \<mapsto>
         https ''www.terabox.com'' ''/sharing/link'' (Some ''surl=1abc'') [(''surl'', ''1abc'')],
      ''https://dm.nephobox.com/sharing/link?surl=1abc'' \<mapsto>
         https ''dm.nephobox.com'' ''/sharing/link'' (Some ''surl=1abc'') [(''surl'', ''1abc'')],
      ''https://www.terabox.com/s/1abc?'' \<mapsto> https ''www.terabox.com'' ''/s/1abc'' (Some []) [],
      ''https://dm.nephobox.com/s/1abc?'' \<mapsto> https ''dm.nephobox.com'' ''/s/1abc'' (Some []) [],
      ''https://example.org/terabox/s/1'' \<mapsto> https ''example.org'' ''/terabox/s/1'' None []]"

definition example_hosts :: "string \<Rightarrow> string option" where
  "example_hosts =
     [''dm.nephobox.com'' \<mapsto> ''dm.nephobox.com'',
      ''EXAMPLE.COM'' \<mapsto> ''example.com'',
      ''x/s/ZZZ'' \<mapsto> ''x'']"

definition example_setHostname :: "url \<Rightarrow> string \<Rightarrow> url" where
  "example_setHostname u h =
     (case example_hosts h of None \<Rightarrow> u | Some h' \<Rightarrow> u\<lparr>hostname := h'\<rparr>)"

definition one_file :: jsval where
  "one_file =
     JObj [(''errno'', JNum 0),
           (''list'',
            JArr [JObj [(''server_filename'', JStr ''a.txt''), (''size'', JNum 10), (''isdir'', JNum 0)]])]"

definition runtime :: "(request \<Rightarrow> fetch_outcome) \<Rightarrow> platform" where
  "runtime net =
     \<lparr>URL_parse = example_urls, URL_setHostname = example_setHostname, URL_toString = href,
      fetch = net\<rparr>"

text \<open>Every request is answered with \<open>one_file\<close>.\<close>

definition net_one_file :: "request \<Rightarrow> fetch_outcome" where
  "net_one_file r = Response True (Inr one_file)"

text \<open>Every request fails in the network.\<close>

definition net_down :: "request \<Rightarrow> fetch_outcome" where
  "net_down r = Rejected ''fetch failed''"

text \<open>The share-list endpoint answers with \<open>one_file\<close>, every other request gets a 5xx.\<close>

definition net_fallback_only :: "request \<Rightarrow> fetch_outcome" where
  "net_fallback_only r =
     (if startsWith (req_url r) ''https://www.nephobox.com/share/list''
      then Response True (Inr one_file)
      else Response False (Inl []))"

text \<open>Every request is answered with \<^verbatim>\<open>{errno: 0, list: []}\<close>.\<close>

definition net_empty_list :: "request \<Rightarrow> fetch_outcome" where
  "net_empty_list r = Response True (Inr (JObj [(''errno'', JNum 0), (''list'', JArr [])]))"

text \<open>Every request is answered with \<^verbatim>\<open>{errno: 0}\<close>, a payload with no list.\<close>

definition net_no_list :: "request \<Rightarrow> fetch_outcome" where
  "net_no_list r = Response True (Inr (JObj [(''errno'', JNum 0)]))"

text \<open>
  The share-list endpoint answers with the provider status \<^verbatim>\<open>{errno: -9}\<close>, every
  other request gets a 5xx.
\<close>

definition net_refusing :: "request \<Rightarrow> fetch_outcome" where
  "net_refusing r =
     (if startsWith (req_url r) ''https://www.nephobox.com/share/list''
      then Response True (Inr (JObj [(''errno'', JNum (- 9))]))
      else Response False (Inl []))"

lemmas example_defs =
  runtime_def example_urls_def example_hosts_def example_setHostname_def https_def href_def one_file_def net_one_file_def net_down_def
  net_fallback_only_def net_empty_list_def net_no_list_def net_refusing_def DEFAULT_HOST_def
  TERABOX_DOMAINS_def

lemmas run_defs =
  checkUrl_A_def extractShortUrl_A_def checkUrl_B_def convertToDefaultHost_def extractShortUrl_B_def surlMatch_def
  sMatch_def startsWith_def stripPrefix1_def fetchShortUrlInfo_A_def fetchShortUrlInfo_B_def
  fetchShareListFallback_def primaryRequest_def fallbackRequest_def lookupBody_def
  resultMapper_A_def resultMapper_B_def toFileEntry_def js_or_def

section \<open>The result mapper keeps the count\<close>

lemma mapEntries_length: "mapEntries xs = Inr fs \<Longrightarrow> length fs = length xs"
  by (induction xs arbitrary: fs) (auto split: sum.splits)

lemma mapFiles_array: "mapFiles v = Inr fs \<Longrightarrow> \<exists>xs. v = JArr xs \<and> mapEntries xs = Inr fs"
  by (cases v) auto

lemma resultMapper_A_listing:
  assumes "resultMapper_A d = Inr r" and "exists r"
  shows "files r \<noteq> [] \<and> total_files r = JNum (of_nat (length (files r)))"
proof -
  from assms obtain l n fs where l: "getProp d ''list'' = Inr l"
    and n: "js_length (js_or l (JArr [])) = Inr n" and nz: "n \<noteq> JNum 0"
    and fs: "mapFiles (js_or l (JArr [])) = Inr fs" and r: "r = Listing True n fs"
    by (auto simp: resultMapper_A_def Let_def split: sum.splits if_splits)
  from mapFiles_array [OF fs] obtain xs where xs: "js_or l (JArr []) = JArr xs"
    and m: "mapEntries xs = Inr fs" by blast
  from n xs have n': "n = JNum (of_nat (length xs))" by simp
  from mapEntries_length [OF m] have len: "length fs = length xs" .
  from nz n' have "xs \<noteq> []" by auto
  with len have "fs \<noteq> []" by auto
  with r n' len show ?thesis by simp
qed

lemma resultMapper_B_listing:
  assumes "resultMapper_B d = Inr r"
  shows "total_files r = JNum (of_nat (length (files r))) \<and> exists r = (files r \<noteq> [])"
proof -
  from assms obtain l xs fs where "js_or l (JArr []) = JArr xs"
    and m: "mapEntries xs = Inr fs"
    and r: "r = Listing (length xs > 0) (JNum (of_nat (length xs))) fs"
    by (auto simp: resultMapper_B_def split: sum.splits jsval.splits)
  from mapEntries_length [OF m] have "length fs = length xs" .
  with r show ?thesis by auto
qed

text \<open>What \<^verbatim>\<open>checkUrl\<close> returns is a failure or a result of the mapper.\<close>

lemma checkUrl_A_result:
  "(\<exists>e. snd (checkUrl_A P u c h) = Failed e) \<or>
   (\<exists>d. resultMapper_A d = Inr (snd (checkUrl_A P u c h)))"
  by (auto simp: checkUrl_A_def extractShortUrl_A_def Let_def fetchShortUrlInfo_A_def
      split: option.splits sum.splits lookup_result.splits prod.splits if_splits)

lemma checkUrl_B_result:
  "(\<exists>e. snd (checkUrl_B P u c h) = Failed e) \<or>
   (\<exists>d. resultMapper_B d = Inr (snd (checkUrl_B P u c h)))"
  by (auto simp: checkUrl_B_def Let_def fetchShortUrlInfo_B_def fetchShareListFallback_def
      split: option.splits sum.splits lookup_result.splits prod.splits)

lemma checkUrl_listing:
  assumes "r = snd (checkUrl_A P u c h) \<or> r = snd (checkUrl_B P u c h)" and "exists r"
  shows "files r \<noteq> [] \<and> total_files r = JNum (of_nat (length (files r)))"
  using assms(1)
proof
  assume r: "r = snd (checkUrl_A P u c h)"
  from checkUrl_A_result [of P u c h] assms(2) r
  obtain d where "resultMapper_A d = Inr r" by auto
  from resultMapper_A_listing [OF this assms(2)] show ?thesis .
next
  assume r: "r = snd (checkUrl_B P u c h)"
  from checkUrl_B_result [of P u c h] assms(2) r
  obtain d where "resultMapper_B d = Inr r" by auto
  from resultMapper_B_listing [OF this] assms(2) show ?thesis by simp
qed

lemma one_file_A:
  "snd (checkUrl_A (runtime net_one_file) ''https://www.terabox.com/s/1abcXYZ'' ''ndus=x'' DEFAULT_HOST) =
   Listing True (JNum 1) [\<lparr>name = JStr ''a.txt'', fsize = JNum 10, isdir = JNum 0\<rparr>]"
  by (simp add: example_defs run_defs)

lemma one_file_B:
  "snd (checkUrl_B (runtime net_one_file) ''https://www.terabox.com/s/1abcXYZ'' ''ndus=x'' DEFAULT_HOST) =
   Listing True (JNum 1) [\<lparr>name = JStr ''a.txt'', fsize = JNum 10, isdir = JNum 0\<rparr>]"
  by (simp add: example_defs run_defs)

text \<open>
  C2. Whatever the URL, the cookie, the host, the runtime and the answers of the provider,
  a result of \<^verbatim>\<open>checkUrl\<close>, in variant A or in variant B, that has
  \<^verbatim>\<open>exists === true\<close> has a \<^verbatim>\<open>total_files\<close> that is the number of
  entries of \<^verbatim>\<open>files\<close>.
\<close>

theorem checkUrl_total_files:
  assumes "r = snd (checkUrl_A P u c h) \<or> r = snd (checkUrl_B P u c h)"
    and "exists r"
  shows "total_files r = JNum (of_nat (length (files r)))"
  using checkUrl_listing [OF assms] by simp

theorem checkUrl_total_files_witness:
  "exists (snd (checkUrl_A (runtime net_one_file) ''https://www.terabox.com/s/1abcXYZ'' ''ndus=x'' DEFAULT_HOST)) \<and>
   total_files (snd (checkUrl_A (runtime net_one_file) ''https://www.terabox.com/s/1abcXYZ'' ''ndus=x'' DEFAULT_HOST)) =
     JNum (of_nat (length (files (snd (checkUrl_A (runtime net_one_file) ''https://www.terabox.com/s/1abcXYZ'' ''ndus=x'' DEFAULT_HOST))))) \<and>
   exists (snd (checkUrl_B (runtime net_one_file) ''https://www.terabox.com/s/1abcXYZ'' ''ndus=x'' DEFAULT_HOST)) \<and>
   total_files (snd (checkUrl_B (runtime net_one_file) ''https://www.terabox.com/s/1abcXYZ'' ''ndus=x'' DEFAULT_HOST)) =
     JNum (of_nat (length (files (snd (checkUrl_B (runtime net_one_file) ''https://www.terabox.com/s/1abcXYZ'' ''ndus=x'' DEFAULT_HOST)))))"
proof -
  let ?P = "runtime net_one_file" and ?u = "''https://www.terabox.com/s/1abcXYZ''"
  have a: "exists (snd (checkUrl_A ?P ?u ''ndus=x'' DEFAULT_HOST))"
    by (simp add: one_file_A)
  have b: "exists (snd (checkUrl_B ?P ?u ''ndus=x'' DEFAULT_HOST))"
    by (simp add: one_file_B)
  from a b
    checkUrl_total_files [of "snd (checkUrl_A ?P ?u ''ndus=x'' DEFAULT_HOST)" ?P ?u "''ndus=x''" DEFAULT_HOST]
    checkUrl_total_files [of "snd (checkUrl_B ?P ?u ''ndus=x'' DEFAULT_HOST)" ?P ?u "''ndus=x''" DEFAULT_HOST]
  show ?thesis by blast
qed

text \<open>
  C10. In both variants and for every behaviour of the provider, a result of
  \<^verbatim>\<open>checkUrl\<close> with \<^verbatim>\<open>exists === true\<close> has a list \<^verbatim>\<open>files\<close> that
  is not empty and a \<^verbatim>\<open>total_files\<close> of at least 1: no result has
  \<^verbatim>\<open>exists === true\<close> and no files.
\<close>

theorem checkUrl_exists_nonempty:
  assumes "r = snd (checkUrl_A P u c h) \<or> r = snd (checkUrl_B P u c h)"
    and "exists r"
  shows "files r \<noteq> [] \<and> (\<exists>n. total_files r = JNum (of_nat n) \<and> 1 \<le> n) \<and>
         (\<forall>n. r \<noteq> Listing True n [])"
proof -
  from checkUrl_listing [OF assms]
  have f: "files r \<noteq> []" and t: "total_files r = JNum (of_nat (length (files r)))" by simp_all
  from f have "1 \<le> length (files r)" by (cases "files r") simp_all
  with t have "\<exists>n. total_files r = JNum (of_nat n) \<and> 1 \<le> n" by blast
  moreover from f have "\<forall>n. r \<noteq> Listing True n []" by auto
  ultimately show ?thesis using f by blast
qed

theorem checkUrl_exists_nonempty_witness:
  "exists (snd (checkUrl_B (runtime net_one_file) ''https://www.terabox.com/s/1abcXYZ'' ''ndus=x'' DEFAULT_HOST)) \<and>
   files (snd (checkUrl_B (runtime net_one_file) ''https://www.terabox.com/s/1abcXYZ'' ''ndus=x'' DEFAULT_HOST)) \<noteq> [] \<and>
   exists (snd (checkUrl_A (runtime net_one_file) ''https://www.terabox.com/s/1abcXYZ'' ''ndus=x'' DEFAULT_HOST)) \<and>
   files (snd (checkUrl_A (runtime net_one_file) ''https://www.terabox.com/s/1abcXYZ'' ''ndus=x'' DEFAULT_HOST)) \<noteq> []"
proof -
  let ?P = "runtime net_one_file" and ?u = "''https://www.terabox.com/s/1abcXYZ''"
  have a: "exists (snd (checkUrl_A ?P ?u ''ndus=x'' DEFAULT_HOST))"
    by (simp add: one_file_A)
  have b: "exists (snd (checkUrl_B ?P ?u ''ndus=x'' DEFAULT_HOST))"
    by (simp add: one_file_B)
  from a b
    checkUrl_exists_nonempty [of "snd (checkUrl_A ?P ?u ''ndus=x'' DEFAULT_HOST)" ?P ?u "''ndus=x''" DEFAULT_HOST]
    checkUrl_exists_nonempty [of "snd (checkUrl_B ?P ?u ''ndus=x'' DEFAULT_HOST)" ?P ?u "''ndus=x''" DEFAULT_HOST]
  show ?thesis by blast
qed

section \<open>A successful primary lookup\<close>

lemma getProp_defined:
  "v \<noteq> JNull \<Longrightarrow> v \<noteq> JUndefined \<Longrightarrow> \<exists>x. getProp v k = Inr x"
  by (cases v) simp_all

lemma toFileEntry_copies:
  assumes "f \<noteq> JNull" and "f \<noteq> JUndefined"
  shows "\<exists>e. toFileEntry f = Inr e \<and> getProp f ''server_filename'' = Inr (name e) \<and>
           getProp f ''size'' = Inr (fsize e) \<and> getProp f ''isdir'' = Inr (isdir e)"
proof -
  from getProp_defined [OF assms] obtain n s d where
    "getProp f ''server_filename'' = Inr n" "getProp f ''size'' = Inr s" "getProp f ''isdir'' = Inr d"
    by metis
  then show ?thesis by (simp add: toFileEntry_def)
qed

lemma mapEntries_copies:
  assumes "JNull \<notin> set xs" and "JUndefined \<notin> set xs"
  shows "\<exists>fs. mapEntries xs = Inr fs \<and> length fs = length xs \<and>
           (\<forall>i<length xs.
              getProp (xs ! i) ''server_filename'' = Inr (name (fs ! i)) \<and>
              getProp (xs ! i) ''size'' = Inr (fsize (fs ! i)) \<and>
              getProp (xs ! i) ''isdir'' = Inr (isdir (fs ! i)))"
  using assms
proof (induction xs)
  case Nil
  then show ?case by simp
next
  case (Cons x xs)
  from Cons.prems have "x \<noteq> JNull" "x \<noteq> JUndefined" by auto
  from toFileEntry_copies [OF this] obtain e where e: "toFileEntry x = Inr e"
    "getProp x ''server_filename'' = Inr (name e)" "getProp x ''size'' = Inr (fsize e)"
    "getProp x ''isdir'' = Inr (isdir e)" by blast
  from Cons obtain fs where fs: "mapEntries xs = Inr fs" "length fs = length xs"
    "\<forall>i<length xs.
        getProp (xs ! i) ''server_filename'' = Inr (name (fs ! i)) \<and>
        getProp (xs ! i) ''size'' = Inr (fsize (fs ! i)) \<and>
        getProp (xs ! i) ''isdir'' = Inr (isdir (fs ! i))" by auto
  have "\<forall>i<length (x # xs).
        getProp ((x # xs) ! i) ''server_filename'' = Inr (name ((e # fs) ! i)) \<and>
        getProp ((x # xs) ! i) ''size'' = Inr (fsize ((e # fs) ! i)) \<and>
        getProp ((x # xs) ! i) ''isdir'' = Inr (isdir ((e # fs) ! i))"
  proof (intro allI impI)
    fix i assume "i < length (x # xs)"
    then show "getProp ((x # xs) ! i) ''server_filename'' = Inr (name ((e # fs) ! i)) \<and>
        getProp ((x # xs) ! i) ''size'' = Inr (fsize ((e # fs) ! i)) \<and>
        getProp ((x # xs) ! i) ''isdir'' = Inr (isdir ((e # fs) ! i))"
      using e fs by (cases i) auto
  qed
  with e fs show ?case by (intro exI [of _ "e # fs"]) simp
qed

lemma errno_zero_object: "getProp d ''errno'' = Inr (JNum 0) \<Longrightarrow> truthy d"
  by (cases d) simp_all

lemma lookupBody_success:
  "getProp d ''errno'' = Inr (JNum 0) \<Longrightarrow> lookupBody a b (Response True (Inr d)) = Inr (Success d)"
  by (simp add: lookupBody_def errno_zero_object)

lemma matchAfter_nonempty: "matchAfter lit cls s = Some t \<Longrightarrow> t \<noteq> []"
  by (induction s) (auto simp: Let_def split: if_splits)

lemma stripPrefix1_nonempty: "s \<noteq> [] \<Longrightarrow> stripPrefix1 s \<noteq> []"
  by (cases s) (auto simp: stripPrefix1_def)

lemma extractShortUrl_B_nonempty: "extractShortUrl_B n = Some s \<Longrightarrow> s \<noteq> []"
  using matchAfter_nonempty stripPrefix1_nonempty
  by (fastforce simp: extractShortUrl_B_def surlMatch_def sMatch_def split: option.splits)

lemma checkUrl_A_primary_success:
  assumes "extractShortUrl_A P u = Inr s"
    and "fetch P (primaryRequest (stripPrefix1 s) c h) = Response True (Inr d)"
    and "getProp d ''errno'' = Inr (JNum 0)"
  shows "checkUrl_A P u c h =
     ([primaryRequest (stripPrefix1 s) c h],
      case resultMapper_A d of Inl e \<Rightarrow> Failed (JStr (''Check failed: '' @ message e)) | Inr r \<Rightarrow> r)"
  using assms by (simp add: checkUrl_A_def fetchShortUrlInfo_A_def lookupBody_success)

lemma checkUrl_B_primary_success:
  assumes "extractShortUrl_B (convertToDefaultHost P u h) = Some s"
    and "fetch P (primaryRequest s c h) = Response True (Inr d)"
    and "getProp d ''errno'' = Inr (JNum 0)"
  shows "checkUrl_B P u c h =
     ([primaryRequest s c h],
      case resultMapper_B d of Inl e \<Rightarrow> Failed (JStr ''Check failed'') | Inr r \<Rightarrow> r)"
  using assms extractShortUrl_B_nonempty [OF assms(1)]
  by (simp add: checkUrl_B_def fetchShortUrlInfo_B_def lookupBody_success)

lemma resultMapper_A_array:
  assumes "getProp d ''list'' = Inr (JArr xs)" and "xs \<noteq> []" and "mapEntries xs = Inr fs"
  shows "resultMapper_A d = Inr (Listing True (JNum (of_nat (length xs))) fs)"
  using assms by (simp add: resultMapper_A_def js_or_def)

lemma resultMapper_B_array:
  assumes "getProp d ''list'' = Inr (JArr xs)" and "mapEntries xs = Inr fs"
  shows "resultMapper_B d = Inr (Listing (length xs > 0) (JNum (of_nat (length xs))) fs)"
  using assms by (simp add: resultMapper_B_def js_or_def)

text \<open>
  C8. When the lookup runs and the primary answer is a payload with \<^verbatim>\<open>errno\<close> 0
  whose \<^verbatim>\<open>list\<close> is a non-empty array of entries (none of them
  \<^verbatim>\<open>null\<close>), \<^verbatim>\<open>checkUrl\<close>, in variant A and in variant B, returns
  \<^verbatim>\<open>exists: true\<close>, the length of the list as \<^verbatim>\<open>total_files\<close>, and as
  many files, the file at each position holding what the entry at that position has as
  \<^verbatim>\<open>server_filename\<close>, \<^verbatim>\<open>size\<close> and \<^verbatim>\<open>isdir\<close>, whatever these
  values are. The run on the payload with the one entry \<^verbatim>\<open>a.txt\<close> follows it.
\<close>

theorem provider_entries_mapped:
  assumes errno: "getProp d ''errno'' = Inr (JNum 0)"
    and list: "getProp d ''list'' = Inr (JArr xs)"
    and ne: "xs \<noteq> []" and nn: "JNull \<notin> set xs" and nu: "JUndefined \<notin> set xs"
    and run: "r = snd (checkUrl_A P u c h) \<and> extractShortUrl_A P u = Inr s \<and>
              fetch P (primaryRequest (stripPrefix1 s) c h) = Response True (Inr d)
            \<or> r = snd (checkUrl_B P u c h) \<and> extractShortUrl_B (convertToDefaultHost P u h) = Some s \<and>
              fetch P (primaryRequest s c h) = Response True (Inr d)"
  shows "r = Listing True (JNum (of_nat (length xs))) (files r) \<and> length (files r) = length xs \<and>
         (\<forall>i<length xs.
            getProp (xs ! i) ''server_filename'' = Inr (name (files r ! i)) \<and>
            getProp (xs ! i) ''size'' = Inr (fsize (files r ! i)) \<and>
            getProp (xs ! i) ''isdir'' = Inr (isdir (files r ! i)))"
proof -
  from mapEntries_copies [OF nn nu] obtain fs where fs: "mapEntries xs = Inr fs"
    and len: "length fs = length xs"
    and copy: "\<forall>i<length xs.
              getProp (xs ! i) ''server_filename'' = Inr (name (fs ! i)) \<and>
              getProp (xs ! i) ''size'' = Inr (fsize (fs ! i)) \<and>
              getProp (xs ! i) ''isdir'' = Inr (isdir (fs ! i))" by blast
  have "r = Listing True (JNum (of_nat (length xs))) fs"
    using run
  proof (elim disjE conjE)
    assume "r = snd (checkUrl_A P u c h)" "extractShortUrl_A P u = Inr s"
      "fetch P (primaryRequest (stripPrefix1 s) c h) = Response True (Inr d)"
    then show ?thesis
      by (simp add: checkUrl_A_primary_success [OF _ _ errno] resultMapper_A_array [OF list ne fs])
  next
    assume "r = snd (checkUrl_B P u c h)" "extractShortUrl_B (convertToDefaultHost P u h) = Some s"
      "fetch P (primaryRequest s c h) = Response True (Inr d)"
    then show ?thesis using ne
      by (simp add: checkUrl_B_primary_success [OF _ _ errno] resultMapper_B_array [OF list fs])
  qed
  with len copy show ?thesis by simp
qed

lemma one_file_props:
  "getProp one_file ''errno'' = Inr (JNum 0)"
  "getProp one_file ''list'' =
     Inr (JArr [JObj [(''server_filename'', JStr ''a.txt''), (''size'', JNum 10), (''isdir'', JNum 0)]])"
  by (simp_all add: one_file_def)

lemma extract_example_A:
  "extractShortUrl_A (runtime net) ''https://www.terabox.com/s/1abcXYZ'' = Inr ''1abcXYZ''"
  by (simp add: example_defs run_defs)

lemma extract_example_B:
  "extractShortUrl_B (convertToDefaultHost (runtime net) ''https://www.terabox.com/s/1abcXYZ'' DEFAULT_HOST) = Some ''abcXYZ''"
  by (simp add: example_defs run_defs)

lemma singleton_entry:
  assumes "length fs = Suc 0" and "name (fs ! 0) = n" and "fsize (fs ! 0) = s" and "isdir (fs ! 0) = d"
  shows "fs = [\<lparr>name = n, fsize = s, isdir = d\<rparr>]"
proof -
  from assms(1) obtain e where "fs = [e]" by (cases fs) auto
  with assms(2-4) show ?thesis by (cases e) simp
qed

theorem provider_entries_mapped_witness:
  "snd (checkUrl_A (runtime net_one_file) ''https://www.terabox.com/s/1abcXYZ'' ''ndus=x'' DEFAULT_HOST) =
     Listing True (JNum 1) [\<lparr>name = JStr ''a.txt'', fsize = JNum 10, isdir = JNum 0\<rparr>] \<and>
   snd (checkUrl_B (runtime net_one_file) ''https://www.terabox.com/s/1abcXYZ'' ''ndus=x'' DEFAULT_HOST) =
     Listing True (JNum 1) [\<lparr>name = JStr ''a.txt'', fsize = JNum 10, isdir = JNum 0\<rparr>]"
proof -
  let ?P = "runtime net_one_file" and ?u = "''https://www.terabox.com/s/1abcXYZ''"
  let ?xs = "[JObj [(''server_filename'', JStr ''a.txt''), (''size'', JNum 10), (''isdir'', JNum 0)]]"
  let ?a = "snd (checkUrl_A ?P ?u ''ndus=x'' DEFAULT_HOST)"
  let ?b = "snd (checkUrl_B ?P ?u ''ndus=x'' DEFAULT_HOST)"
  have net: "fetch ?P q = Response True (Inr one_file)" for q
    by (simp add: runtime_def net_one_file_def)
  have "?a = Listing True (JNum (of_nat (length ?xs))) (files ?a) \<and> length (files ?a) = length ?xs \<and>
         (\<forall>i<length ?xs.
            getProp (?xs ! i) ''server_filename'' = Inr (name (files ?a ! i)) \<and>
            getProp (?xs ! i) ''size'' = Inr (fsize (files ?a ! i)) \<and>
            getProp (?xs ! i) ''isdir'' = Inr (isdir (files ?a ! i)))"
    by (rule provider_entries_mapped [where s = "''1abcXYZ''" and P = ?P and u = ?u and c = "''ndus=x''" and h = DEFAULT_HOST,
          OF one_file_props])
       (simp_all add: extract_example_A net)
  then have a: "?a = Listing True (JNum 1) (files ?a)" and "length (files ?a) = Suc 0"
    and "name (files ?a ! 0) = JStr ''a.txt''" "fsize (files ?a ! 0) = JNum 10" "isdir (files ?a ! 0) = JNum 0"
    by simp_all
  from singleton_entry [OF this(2-5)] a
  have A: "?a = Listing True (JNum 1) [\<lparr>name = JStr ''a.txt'', fsize = JNum 10, isdir = JNum 0\<rparr>]"
    by simp
  have "?b = Listing True (JNum (of_nat (length ?xs))) (files ?b) \<and> length (files ?b) = length ?xs \<and>
         (\<forall>i<length ?xs.
            getProp (?xs ! i) ''server_filename'' = Inr (name (files ?b ! i)) \<and>
            getProp (?xs ! i) ''size'' = Inr (fsize (files ?b ! i)) \<and>
            getProp (?xs ! i) ''isdir'' = Inr (isdir (files ?b ! i)))"
    by (rule provider_entries_mapped [where s = "''abcXYZ''" and P = ?P and u = ?u and c = "''ndus=x''" and h = DEFAULT_HOST,
          OF one_file_props])
       (simp_all add: extract_example_B net)
  then have b: "?b = Listing True (JNum 1) (files ?b)" and "length (files ?b) = Suc 0"
    and "name (files ?b ! 0) = JStr ''a.txt''" "fsize (files ?b ! 0) = JNum 10" "isdir (files ?b ! 0) = JNum 0"
    by simp_all
  from singleton_entry [OF this(2-5)] b
  have B: "?b = Listing True (JNum 1) [\<lparr>name = JStr ''a.txt'', fsize = JNum 10, isdir = JNum 0\<rparr>]"
    by simp
  from A B show ?thesis by simp
qed

text \<open>
  C4. When the lookup runs in both variants and the primary answer is a payload with
  \<^verbatim>\<open>errno\<close> 0 whose \<^verbatim>\<open>list\<close> is absent or the empty array, variant A returns
  \<^verbatim>\<open>{exists: false, error: "No files found"}\<close> and variant B returns
  \<^verbatim>\<open>{exists: false, total_files: 0, files: []}\<close>: the two results differ, and
  neither has \<^verbatim>\<open>exists\<close>.
\<close>

theorem empty_list_variants_differ:
  assumes errno: "getProp d ''errno'' = Inr (JNum 0)"
    and list: "getProp d ''list'' = Inr l" and empty: "l = JUndefined \<or> l = JArr []"
    and a: "extractShortUrl_A P u = Inr sa"
      "fetch P (primaryRequest (stripPrefix1 sa) c h) = Response True (Inr d)"
    and b: "extractShortUrl_B (convertToDefaultHost P u h) = Some sb"
      "fetch P (primaryRequest sb c h) = Response True (Inr d)"
  shows "snd (checkUrl_A P u c h) = Failed (JStr ''No files found'') \<and>
         snd (checkUrl_B P u c h) = Listing False (JNum 0) [] \<and>
         snd (checkUrl_A P u c h) \<noteq> snd (checkUrl_B P u c h) \<and>
         \<not> exists (snd (checkUrl_A P u c h)) \<and> \<not> exists (snd (checkUrl_B P u c h))"
proof -
  from empty have fl: "js_or l (JArr []) = JArr []" by (auto simp: js_or_def)
  from list fl have "resultMapper_A d = Inr (Failed (JStr ''No files found''))"
    by (simp add: resultMapper_A_def)
  with checkUrl_A_primary_success [OF a errno]
  have A: "snd (checkUrl_A P u c h) = Failed (JStr ''No files found'')" by simp
  from list fl have "resultMapper_B d = Inr (Listing False (JNum 0) [])"
    by (simp add: resultMapper_B_def)
  with checkUrl_B_primary_success [OF b errno]
  have B: "snd (checkUrl_B P u c h) = Listing False (JNum 0) []" by simp
  from A B show ?thesis by simp
qed

theorem empty_list_variants_differ_witness:
  "snd (checkUrl_A (runtime net_empty_list) ''https://www.terabox.com/s/1abcXYZ'' ''ndus=x'' DEFAULT_HOST) =
     Failed (JStr ''No files found'') \<and>
   snd (checkUrl_B (runtime net_empty_list) ''https://www.terabox.com/s/1abcXYZ'' ''ndus=x'' DEFAULT_HOST) =
     Listing False (JNum 0) [] \<and>
   snd (checkUrl_A (runtime net_no_list) ''https://www.terabox.com/s/1abcXYZ'' ''ndus=x'' DEFAULT_HOST) =
     Failed (JStr ''No files found'') \<and>
   snd (checkUrl_B (runtime net_no_list) ''https://www.terabox.com/s/1abcXYZ'' ''ndus=x'' DEFAULT_HOST) =
     Listing False (JNum 0) []"
proof -
  let ?u = "''https://www.terabox.com/s/1abcXYZ''"
  have e: "fetch (runtime net_empty_list) q =
      Response True (Inr (JObj [(''errno'', JNum 0), (''list'', JArr [])]))" for q
    by (simp add: runtime_def net_empty_list_def)
  have n: "fetch (runtime net_no_list) q = Response True (Inr (JObj [(''errno'', JNum 0)]))" for q
    by (simp add: runtime_def net_no_list_def)
  have 1: "getProp (JObj [(''errno'', JNum 0), (''list'', JArr [])]) ''errno'' = Inr (JNum 0)"
    and 2: "getProp (JObj [(''errno'', JNum 0), (''list'', JArr [])]) ''list'' = Inr (JArr [])"
    and 3: "getProp (JObj [(''errno'', JNum 0)]) ''errno'' = Inr (JNum 0)"
    and 4: "getProp (JObj [(''errno'', JNum 0)]) ''list'' = Inr JUndefined"
    by simp_all
  from empty_list_variants_differ [OF 1 2 _ extract_example_A e extract_example_B e, where c = "''ndus=x''"]
    empty_list_variants_differ [OF 3 4 _ extract_example_A n extract_example_B n, where c = "''ndus=x''"]
  show ?thesis by simp
qed

section \<open>The prefix rule and the requests sent\<close>

lemma checkUrl_A_sent:
  "extractShortUrl_A P u = Inr s \<Longrightarrow> fst (checkUrl_A P u c h) = [primaryRequest (stripPrefix1 s) c h]"
  by (simp add: checkUrl_A_def fetchShortUrlInfo_A_def Let_def split: lookup_result.splits sum.splits)

lemma checkUrl_B_sent:
  assumes "extractShortUrl_B (convertToDefaultHost P u h) = Some s"
  shows "fst (checkUrl_B P u c h) =
     primaryRequest s c h #
       (if success (snd (fetchShortUrlInfo_B P s c h)) then [] else [fallbackRequest s])"
  using assms extractShortUrl_B_nonempty [OF assms]
  by (simp add: checkUrl_B_def fetchShortUrlInfo_B_def fetchShareListFallback_def Let_def
      split: lookup_result.splits sum.splits)

lemma checkUrl_B_not_sent:
  "extractShortUrl_B (convertToDefaultHost P u h) = None \<Longrightarrow> fst (checkUrl_B P u c h) = []"
  by (simp add: checkUrl_B_def)

text \<open>
  C1, as the code has it. Let \<open>s\<close> be the candidate identifier and \<open>api\<close> what the
  prefix rule makes of it: \<open>s\<close> without its first character when \<open>s\<close> begins with
  \<^verbatim>\<open>1\<close> and is longer than one character, else \<open>s\<close>. In variant A the primary
  request carries \<open>api\<close>, whether \<open>s\<close> is the \<^verbatim>\<open>surl\<close> parameter or the
  token after \<^verbatim>\<open>/s/\<close>. In variant B the requests carry \<open>api\<close> when
  \<open>s\<close> is the token after \<^verbatim>\<open>/s/\<close>, and \<open>s\<close> itself, unchanged, when
  \<open>s\<close> is what follows \<^verbatim>\<open>surl=\<close>.
\<close>

theorem prefix_rule_by_variant:
  assumes api: "api = (if startsWith s ''1'' \<and> length s > 1 then drop 1 s else s)"
  shows
    "(URL_parse P u = Some urlObj \<and> map_of (searchParams urlObj) ''surl'' = Some s \<and> s \<noteq> [] \<longrightarrow>
        fst (checkUrl_A P u c h) = [primaryRequest api c h]) \<and>
     (URL_parse P u = Some urlObj \<and> map_of (searchParams urlObj) ''surl'' = None \<and> sMatch u = Some s \<longrightarrow>
        fst (checkUrl_A P u c h) = [primaryRequest api c h]) \<and>
     (surlMatch (convertToDefaultHost P u h) = None \<and> sMatch (convertToDefaultHost P u h) = Some s \<longrightarrow>
        (\<exists>rest. fst (checkUrl_B P u c h) = primaryRequest api c h # rest \<and>
                (rest = [] \<or> rest = [fallbackRequest api]))) \<and>
     (surlMatch (convertToDefaultHost P u h) = Some s \<longrightarrow>
        (\<exists>rest. fst (checkUrl_B P u c h) = primaryRequest s c h # rest \<and>
                (rest = [] \<or> rest = [fallbackRequest s])))"
proof (intro conjI impI)
  assume "URL_parse P u = Some urlObj \<and> map_of (searchParams urlObj) ''surl'' = Some s \<and> s \<noteq> []"
  then have "extractShortUrl_A P u = Inr s" by (simp add: extractShortUrl_A_def)
  from checkUrl_A_sent [OF this] api show "fst (checkUrl_A P u c h) = [primaryRequest api c h]"
    by (simp add: stripPrefix1_def)
next
  assume h: "URL_parse P u = Some urlObj \<and> map_of (searchParams urlObj) ''surl'' = None \<and> sMatch u = Some s"
  then have "s \<noteq> []" by (auto simp: sMatch_def dest: matchAfter_nonempty)
  with h have "extractShortUrl_A P u = Inr s" by (simp add: extractShortUrl_A_def)
  from checkUrl_A_sent [OF this] api show "fst (checkUrl_A P u c h) = [primaryRequest api c h]"
    by (simp add: stripPrefix1_def)
next
  assume "surlMatch (convertToDefaultHost P u h) = None \<and> sMatch (convertToDefaultHost P u h) = Some s"
  then have "extractShortUrl_B (convertToDefaultHost P u h) = Some api"
    using api by (simp add: extractShortUrl_B_def stripPrefix1_def)
  from checkUrl_B_sent [OF this]
  show "\<exists>rest. fst (checkUrl_B P u c h) = primaryRequest api c h # rest \<and>
                (rest = [] \<or> rest = [fallbackRequest api])" by simp
next
  assume "surlMatch (convertToDefaultHost P u h) = Some s"
  then have "extractShortUrl_B (convertToDefaultHost P u h) = Some s"
    by (simp add: extractShortUrl_B_def)
  from checkUrl_B_sent [OF this]
  show "\<exists>rest. fst (checkUrl_B P u c h) = primaryRequest s c h # rest \<and>
                (rest = [] \<or> rest = [fallbackRequest s])" by simp
qed

lemma example_parse_surl:
  "URL_parse (runtime net) ''https://www.terabox.com/sharing/link?surl=1abc'' =
     Some (https ''www.terabox.com'' ''/sharing/link'' (Some ''surl=1abc'') [(''surl'', ''1abc'')])"
  by (simp add: runtime_def example_urls_def)

lemma example_parse_path:
  "URL_parse (runtime net) ''https://www.terabox.com/s/1abcXYZ'' =
     Some (https ''www.terabox.com'' ''/s/1abcXYZ'' None [])"
  by (simp add: runtime_def example_urls_def)

lemma example_parse_one:
  "URL_parse (runtime net) ''https://example.org/terabox/s/1'' =
     Some (https ''example.org'' ''/terabox/s/1'' None [])"
  by (simp add: runtime_def example_urls_def)

lemma example_convert_surl:
  "convertToDefaultHost (runtime net) ''https://www.terabox.com/sharing/link?surl=1abc'' DEFAULT_HOST =
     ''https://dm.nephobox.com/sharing/link?surl=1abc''"
  by (simp add: example_defs convertToDefaultHost_def)

lemma example_convert_path:
  "convertToDefaultHost (runtime net) ''https://www.terabox.com/s/1abcXYZ'' DEFAULT_HOST =
     ''https://dm.nephobox.com/s/1abcXYZ''"
  by (simp add: example_defs convertToDefaultHost_def)

theorem prefix_rule_by_variant_witness:
  "fst (checkUrl_A (runtime net_one_file) ''https://www.terabox.com/sharing/link?surl=1abc'' ''ndus=x'' DEFAULT_HOST) =
     [primaryRequest ''abc'' ''ndus=x'' DEFAULT_HOST] \<and>
   fst (checkUrl_A (runtime net_one_file) ''https://www.terabox.com/s/1abcXYZ'' ''ndus=x'' DEFAULT_HOST) =
     [primaryRequest ''abcXYZ'' ''ndus=x'' DEFAULT_HOST] \<and>
   fst (checkUrl_A (runtime net_one_file) ''https://example.org/terabox/s/1'' ''ndus=x'' DEFAULT_HOST) =
     [primaryRequest ''1'' ''ndus=x'' DEFAULT_HOST] \<and>
   hd (fst (checkUrl_B (runtime net_one_file) ''https://www.terabox.com/s/1abcXYZ'' ''ndus=x'' DEFAULT_HOST)) =
     primaryRequest ''abcXYZ'' ''ndus=x'' DEFAULT_HOST \<and>
   hd (fst (checkUrl_B (runtime net_one_file) ''https://www.terabox.com/sharing/link?surl=1abc'' ''ndus=x'' DEFAULT_HOST)) =
     primaryRequest ''1abc'' ''ndus=x'' DEFAULT_HOST"
proof -
  let ?P = "runtime net_one_file"
  have 1: "fst (checkUrl_A ?P ''https://www.terabox.com/sharing/link?surl=1abc'' ''ndus=x'' DEFAULT_HOST) =
     [primaryRequest ''abc'' ''ndus=x'' DEFAULT_HOST]"
    using prefix_rule_by_variant [of "''abc''" "''1abc''" ?P "''https://www.terabox.com/sharing/link?surl=1abc''"
        "https ''www.terabox.com'' ''/sharing/link'' (Some ''surl=1abc'') [(''surl'', ''1abc'')]" "''ndus=x''" DEFAULT_HOST]
    by (simp add: example_parse_surl startsWith_def https_def)
  have 2: "fst (checkUrl_A ?P ''https://www.terabox.com/s/1abcXYZ'' ''ndus=x'' DEFAULT_HOST) =
     [primaryRequest ''abcXYZ'' ''ndus=x'' DEFAULT_HOST]"
    using prefix_rule_by_variant [of "''abcXYZ''" "''1abcXYZ''" ?P "''https://www.terabox.com/s/1abcXYZ''"
        "https ''www.terabox.com'' ''/s/1abcXYZ'' None []" "''ndus=x''" DEFAULT_HOST]
    by (simp add: example_parse_path startsWith_def https_def sMatch_def)
  have 3: "fst (checkUrl_A ?P ''https://example.org/terabox/s/1'' ''ndus=x'' DEFAULT_HOST) =
     [primaryRequest ''1'' ''ndus=x'' DEFAULT_HOST]"
    using prefix_rule_by_variant [of "''1''" "''1''" ?P "''https://example.org/terabox/s/1''"
        "https ''example.org'' ''/terabox/s/1'' None []" "''ndus=x''" DEFAULT_HOST]
    by (simp add: example_parse_one startsWith_def https_def sMatch_def)
  have 4: "hd (fst (checkUrl_B ?P ''https://www.terabox.com/s/1abcXYZ'' ''ndus=x'' DEFAULT_HOST)) =
     primaryRequest ''abcXYZ'' ''ndus=x'' DEFAULT_HOST"
    using prefix_rule_by_variant [of "''abcXYZ''" "''1abcXYZ''" ?P "''https://www.terabox.com/s/1abcXYZ''"
        "https ''www.terabox.com'' ''/s/1abcXYZ'' None []" "''ndus=x''" DEFAULT_HOST]
    by (auto simp add: example_convert_path startsWith_def sMatch_def surlMatch_def)
  have 5: "hd (fst (checkUrl_B ?P ''https://www.terabox.com/sharing/link?surl=1abc'' ''ndus=x'' DEFAULT_HOST)) =
     primaryRequest ''1abc'' ''ndus=x'' DEFAULT_HOST"
    using prefix_rule_by_variant [of "''abc''" "''1abc''" ?P "''https://www.terabox.com/sharing/link?surl=1abc''"
        "https ''www.terabox.com'' ''/sharing/link'' (Some ''surl=1abc'') [(''surl'', ''1abc'')]" "''ndus=x''" DEFAULT_HOST]
    by (auto simp add: example_convert_surl startsWith_def sMatch_def surlMatch_def)
  from 1 2 3 4 5 show ?thesis by blast
qed

text \<open>
  C1 as stated fails in variant B: for \<^verbatim>\<open>?surl=1abc\<close> the candidate is
  \<^verbatim>\<open>1abc\<close> and the primary request is sent with \<^verbatim>\<open>shorturl=1abc\<close>.
\<close>

theorem prefix_rule_counterexample:
  "surlMatch (convertToDefaultHost (runtime net_one_file)
       ''https://www.terabox.com/sharing/link?surl=1abc'' DEFAULT_HOST) = Some ''1abc'' \<and>
   map req_url (fst (checkUrl_B (runtime net_one_file)
       ''https://www.terabox.com/sharing/link?surl=1abc'' ''ndus=x'' DEFAULT_HOST)) =
     [''https://dm.nephobox.com/api/shorturlinfo?clienttype=1&root=1&shorturl=1abc'']"
  by (simp add: example_defs run_defs)

section \<open>Primary, then fallback\<close>

lemma primary_is_not_fallback: "primaryRequest s c h \<noteq> fallbackRequest s'"
  by (simp add: primaryRequest_def fallbackRequest_def)

lemma checkUrl_B_fallback_success:
  assumes "extractShortUrl_B (convertToDefaultHost P u h) = Some s"
    and "\<not> success (snd (fetchShortUrlInfo_B P s c h))"
    and "snd (fetchShareListFallback P s) = Success d"
  shows "snd (checkUrl_B P u c h) =
     (case resultMapper_B d of Inl e \<Rightarrow> Failed (JStr ''Check failed'') | Inr r \<Rightarrow> r)"
  using assms extractShortUrl_B_nonempty [OF assms(1)]
  by (auto simp: checkUrl_B_def Let_def split: prod.splits lookup_result.splits)

lemma checkUrl_B_both_fail:
  assumes "extractShortUrl_B (convertToDefaultHost P u h) = Some s"
    and "\<not> success (snd (fetchShortUrlInfo_B P s c h))"
    and "\<not> success (snd (fetchShareListFallback P s))"
  shows "snd (checkUrl_B P u c h) = Failed (JStr ''File not found or deleted'')"
  using assms extractShortUrl_B_nonempty [OF assms(1)]
  by (auto simp: checkUrl_B_def Let_def split: prod.splits lookup_result.splits)

text \<open>
  C5 (variant B). Let \<open>s\<close> be the identifier extracted. When the primary lookup
  succeeds, \<^verbatim>\<open>checkUrl\<close> sends the primary request alone: no fallback request
  goes out. When it fails, the fallback request follows it. When the primary lookup fails
  and the fallback succeeds with payload \<open>d\<close>, the result is what the result mapper
  makes of \<open>d\<close> (an exception of the mapper is caught as \<^verbatim>\<open>Check failed\<close>);
  for a payload whose list is absent or an array of entries, none of them
  \<^verbatim>\<open>null\<close>, that is \<^verbatim>\<open>exists\<close> = (the list is not empty),
  \<^verbatim>\<open>total_files\<close> = its length, and the entries mapped one by one in order.
\<close>

theorem fallback_after_primary_failure:
  assumes ex: "extractShortUrl_B (convertToDefaultHost P u h) = Some s"
  shows
    "(success (snd (fetchShortUrlInfo_B P s c h)) \<longrightarrow>
        fst (checkUrl_B P u c h) = [primaryRequest s c h] \<and>
        (\<forall>s'. fallbackRequest s' \<notin> set (fst (checkUrl_B P u c h)))) \<and>
     (\<not> success (snd (fetchShortUrlInfo_B P s c h)) \<longrightarrow>
        fst (checkUrl_B P u c h) = [primaryRequest s c h, fallbackRequest s]) \<and>
     (\<not> success (snd (fetchShortUrlInfo_B P s c h)) \<and> snd (fetchShareListFallback P s) = Success d \<longrightarrow>
        snd (checkUrl_B P u c h) =
          (case resultMapper_B d of Inl e \<Rightarrow> Failed (JStr ''Check failed'') | Inr r \<Rightarrow> r)) \<and>
     (\<not> success (snd (fetchShortUrlInfo_B P s c h)) \<and> snd (fetchShareListFallback P s) = Success d \<and>
      getProp d ''list'' = Inr l \<and> js_or l (JArr []) = JArr xs \<and> JNull \<notin> set xs \<and> JUndefined \<notin> set xs \<longrightarrow>
        snd (checkUrl_B P u c h) =
          Listing (length xs > 0) (JNum (of_nat (length xs))) (files (snd (checkUrl_B P u c h))) \<and>
        length (files (snd (checkUrl_B P u c h))) = length xs \<and>
        (\<forall>i<length xs.
           getProp (xs ! i) ''server_filename'' = Inr (name (files (snd (checkUrl_B P u c h)) ! i)) \<and>
           getProp (xs ! i) ''size'' = Inr (fsize (files (snd (checkUrl_B P u c h)) ! i)) \<and>
           getProp (xs ! i) ''isdir'' = Inr (isdir (files (snd (checkUrl_B P u c h)) ! i))))"
proof (intro conjI impI)
  assume "success (snd (fetchShortUrlInfo_B P s c h))"
  with checkUrl_B_sent [OF ex, of c] show "fst (checkUrl_B P u c h) = [primaryRequest s c h]" by simp
  then show "\<forall>s'. fallbackRequest s' \<notin> set (fst (checkUrl_B P u c h))"
    by (simp add: primary_is_not_fallback [symmetric])
next
  assume "\<not> success (snd (fetchShortUrlInfo_B P s c h))"
  with checkUrl_B_sent [OF ex, of c]
  show "fst (checkUrl_B P u c h) = [primaryRequest s c h, fallbackRequest s]" by simp
next
  assume "\<not> success (snd (fetchShortUrlInfo_B P s c h)) \<and> snd (fetchShareListFallback P s) = Success d"
  then show "snd (checkUrl_B P u c h) =
      (case resultMapper_B d of Inl e \<Rightarrow> Failed (JStr ''Check failed'') | Inr r \<Rightarrow> r)"
    using checkUrl_B_fallback_success [OF ex] by blast
next
  assume a: "\<not> success (snd (fetchShortUrlInfo_B P s c h)) \<and> snd (fetchShareListFallback P s) = Success d \<and>
      getProp d ''list'' = Inr l \<and> js_or l (JArr []) = JArr xs \<and> JNull \<notin> set xs \<and> JUndefined \<notin> set xs"
  then have r: "snd (checkUrl_B P u c h) =
      (case resultMapper_B d of Inl e \<Rightarrow> Failed (JStr ''Check failed'') | Inr r \<Rightarrow> r)"
    using checkUrl_B_fallback_success [OF ex] by blast
  from a mapEntries_copies [of xs] obtain fs where fs: "mapEntries xs = Inr fs"
    and len: "length fs = length xs"
    and copy: "\<forall>i<length xs.
              getProp (xs ! i) ''server_filename'' = Inr (name (fs ! i)) \<and>
              getProp (xs ! i) ''size'' = Inr (fsize (fs ! i)) \<and>
              getProp (xs ! i) ''isdir'' = Inr (isdir (fs ! i))" by blast
  from a fs have "resultMapper_B d = Inr (Listing (length xs > 0) (JNum (of_nat (length xs))) fs)"
    by (simp add: resultMapper_B_def)
  with r have *: "snd (checkUrl_B P u c h) = Listing (length xs > 0) (JNum (of_nat (length xs))) fs"
    by simp
  then have f: "files (snd (checkUrl_B P u c h)) = fs" by simp
  from * f show "snd (checkUrl_B P u c h) =
          Listing (length xs > 0) (JNum (of_nat (length xs))) (files (snd (checkUrl_B P u c h)))" by simp
  from f len show "length (files (snd (checkUrl_B P u c h))) = length xs" by simp
  from f copy show "\<forall>i<length xs.
           getProp (xs ! i) ''server_filename'' = Inr (name (files (snd (checkUrl_B P u c h)) ! i)) \<and>
           getProp (xs ! i) ''size'' = Inr (fsize (files (snd (checkUrl_B P u c h)) ! i)) \<and>
           getProp (xs ! i) ''isdir'' = Inr (isdir (files (snd (checkUrl_B P u c h)) ! i))" by simp
qed

lemma example_primary_ok:
  "success (snd (fetchShortUrlInfo_B (runtime net_one_file) s c h))"
  by (simp add: fetchShortUrlInfo_B_def lookupBody_def runtime_def net_one_file_def one_file_def)

lemma example_primary_5xx:
  "\<not> success (snd (fetchShortUrlInfo_B (runtime net_fallback_only) s c DEFAULT_HOST))"
  "\<not> success (snd (fetchShortUrlInfo_B (runtime net_refusing) s c DEFAULT_HOST))"
  by (simp_all add: fetchShortUrlInfo_B_def lookupBody_def runtime_def net_fallback_only_def
      net_refusing_def primaryRequest_def startsWith_def DEFAULT_HOST_def)

lemma example_primary_down:
  "\<not> success (snd (fetchShortUrlInfo_B (runtime net_down) s c h))"
  "\<not> success (snd (fetchShareListFallback (runtime net_down) s))"
  by (simp_all add: fetchShortUrlInfo_B_def fetchShareListFallback_def lookupBody_def runtime_def
      net_down_def)

lemma example_fallback_ok:
  "snd (fetchShareListFallback (runtime net_fallback_only) s) = Success one_file"
  by (simp add: fetchShareListFallback_def lookupBody_def runtime_def net_fallback_only_def
      fallbackRequest_def startsWith_def one_file_def)

lemma example_fallback_refused:
  "\<not> success (snd (fetchShareListFallback (runtime net_refusing) s))"
  by (simp add: fetchShareListFallback_def lookupBody_def runtime_def net_refusing_def
      fallbackRequest_def startsWith_def js_or_def)

theorem fallback_after_primary_failure_witness:
  "fst (checkUrl_B (runtime net_one_file) ''https://www.terabox.com/s/1abcXYZ'' ''ndus=x'' DEFAULT_HOST) =
     [primaryRequest ''abcXYZ'' ''ndus=x'' DEFAULT_HOST] \<and>
   fst (checkUrl_B (runtime net_fallback_only) ''https://www.terabox.com/s/1abcXYZ'' ''ndus=x'' DEFAULT_HOST) =
     [primaryRequest ''abcXYZ'' ''ndus=x'' DEFAULT_HOST, fallbackRequest ''abcXYZ''] \<and>
   snd (checkUrl_B (runtime net_fallback_only) ''https://www.terabox.com/s/1abcXYZ'' ''ndus=x'' DEFAULT_HOST) =
     Listing True (JNum 1) [\<lparr>name = JStr ''a.txt'', fsize = JNum 10, isdir = JNum 0\<rparr>]"
proof -
  let ?u = "''https://www.terabox.com/s/1abcXYZ''"
  let ?xs = "[JObj [(''server_filename'', JStr ''a.txt''), (''size'', JNum 10), (''isdir'', JNum 0)]]"
  let ?r = "snd (checkUrl_B (runtime net_fallback_only) ?u ''ndus=x'' DEFAULT_HOST)"
  have l: "js_or (JArr ?xs) (JArr []) = JArr ?xs" by (simp add: js_or_def)
  note ok = fallback_after_primary_failure [OF extract_example_B [of net_one_file],
      of "''ndus=x''" one_file "JArr ?xs" ?xs]
  note fb = fallback_after_primary_failure [OF extract_example_B [of net_fallback_only],
      of "''ndus=x''" one_file "JArr ?xs" ?xs]
  from ok example_primary_ok
  have 1: "fst (checkUrl_B (runtime net_one_file) ?u ''ndus=x'' DEFAULT_HOST) =
     [primaryRequest ''abcXYZ'' ''ndus=x'' DEFAULT_HOST]" by blast
  from fb example_primary_5xx(1)
  have 2: "fst (checkUrl_B (runtime net_fallback_only) ?u ''ndus=x'' DEFAULT_HOST) =
     [primaryRequest ''abcXYZ'' ''ndus=x'' DEFAULT_HOST, fallbackRequest ''abcXYZ'']" by blast
  have hyp: "\<not> success (snd (fetchShortUrlInfo_B (runtime net_fallback_only) ''abcXYZ'' ''ndus=x'' DEFAULT_HOST)) \<and>
      snd (fetchShareListFallback (runtime net_fallback_only) ''abcXYZ'') = Success one_file \<and>
      getProp one_file ''list'' = Inr (JArr ?xs) \<and> js_or (JArr ?xs) (JArr []) = JArr ?xs \<and>
      JNull \<notin> set ?xs \<and> JUndefined \<notin> set ?xs"
    using example_primary_5xx(1) example_fallback_ok one_file_props(2) l by simp
  note fb [THEN conjunct2, THEN conjunct2, THEN conjunct2, THEN mp, OF hyp]
  then have r: "?r = Listing True (JNum 1) (files ?r)" and "length (files ?r) = Suc 0"
    and "name (files ?r ! 0) = JStr ''a.txt''" "fsize (files ?r ! 0) = JNum 10" "isdir (files ?r ! 0) = JNum 0"
    by simp_all
  from singleton_entry [OF this(2-5)] r
  have 3: "?r = Listing True (JNum 1) [\<lparr>name = JStr ''a.txt'', fsize = JNum 10, isdir = JNum 0\<rparr>]"
    by simp
  from 1 2 3 show ?thesis by blast
qed

text \<open>
  C3 (variant B). When \<^verbatim>\<open>url\<close> and \<^verbatim>\<open>cookie\<close> are given and pass the
  checks of the handler, an identifier is extracted, and neither the primary nor the fallback
  lookup succeeds, for whatever reason (a network error, a response that is not
  \<^verbatim>\<open>ok\<close>, a body that is not the payload with \<^verbatim>\<open>errno\<close> 0), the handler
  answers with status 200 and the body
  \<^verbatim>\<open>{exists: false, error: "File not found or deleted"}\<close>, after exactly the two
  requests. A failure of a lookup is a value of the model, never an exception of
  \<^verbatim>\<open>checkUrl\<close>.
\<close>

theorem both_lookups_fail:
  assumes "q_url q = Some u" and "u \<noteq> []" and "q_cookie q = Some ck" and "ck \<noteq> []"
    and "isTeraboxUrl u"
    and "host = orDefault (q_host q) DEFAULT_HOST" and "cookie = normalizeCookie ck"
    and ex: "extractShortUrl_B (convertToDefaultHost P u host) = Some s"
    and p: "\<not> success (snd (fetchShortUrlInfo_B P s cookie host))"
    and f: "\<not> success (snd (fetchShareListFallback P s))"
  shows "handler_B P q =
     ([primaryRequest s cookie host, fallbackRequest s],
      \<lparr>status = 200, body = ResultJson (Failed (JStr ''File not found or deleted''))\<rparr>)"
proof -
  from checkUrl_B_sent [OF ex, of cookie] p
  have "fst (checkUrl_B P u cookie host) = [primaryRequest s cookie host, fallbackRequest s]"
    by simp
  moreover from checkUrl_B_both_fail [OF ex p f]
  have "snd (checkUrl_B P u cookie host) = Failed (JStr ''File not found or deleted'')" .
  ultimately have "checkUrl_B P u cookie host =
      ([primaryRequest s cookie host, fallbackRequest s], Failed (JStr ''File not found or deleted''))"
    by (simp add: prod_eq_iff)
  with assms(1-7) show ?thesis
    by (simp add: handler_B_def js_not_def)
qed

lemma example_is_terabox: "isTeraboxUrl ''https://www.terabox.com/s/1abcXYZ''"
  by (simp add: isTeraboxUrl_def startsWith_def)

theorem both_lookups_fail_witness:
  "handler_B (runtime net_down)
     \<lparr>q_url = Some ''https://www.terabox.com/s/1abcXYZ'', q_cookie = Some ''abc123'', q_host = None\<rparr> =
     ([primaryRequest ''abcXYZ'' ''ndus=abc123'' DEFAULT_HOST, fallbackRequest ''abcXYZ''],
      \<lparr>status = 200, body = ResultJson (Failed (JStr ''File not found or deleted''))\<rparr>) \<and>
   handler_B (runtime net_refusing)
     \<lparr>q_url = Some ''https://www.terabox.com/s/1abcXYZ'', q_cookie = Some ''abc123'', q_host = None\<rparr> =
     ([primaryRequest ''abcXYZ'' ''ndus=abc123'' DEFAULT_HOST, fallbackRequest ''abcXYZ''],
      \<lparr>status = 200, body = ResultJson (Failed (JStr ''File not found or deleted''))\<rparr>)"
proof -
  let ?q = "\<lparr>q_url = Some ''https://www.terabox.com/s/1abcXYZ'', q_cookie = Some ''abc123'', q_host = None\<rparr>"
  have c: "''ndus=abc123'' = normalizeCookie ''abc123''"
    by (simp add: normalizeCookie_def startsWith_def)
  have h: "DEFAULT_HOST = orDefault (q_host ?q) DEFAULT_HOST"
    by (simp add: orDefault_def)
  from both_lookups_fail [where q = ?q and P = "runtime net_down", OF _ _ _ _ example_is_terabox h c
      extract_example_B example_primary_down]
    both_lookups_fail [where q = ?q and P = "runtime net_refusing", OF _ _ _ _ example_is_terabox h c
      extract_example_B example_primary_5xx(2) example_fallback_refused]
  show ?thesis by simp
qed

section \<open>Host normalizer\<close>










section \<open>The checks of the front door\<close>

text \<open>
  C7, as the code has it. A parameter counts as missing when it is absent or empty. When
  \<^verbatim>\<open>url\<close> and \<^verbatim>\<open>cookie\<close> are both missing, both variants answer 200
  with their API description. When \<^verbatim>\<open>url\<close> is given and not empty and
  \<^verbatim>\<open>cookie\<close> is missing, both answer 401 with
  \<^verbatim>\<open>{error: "Missing 'cookie' parameter"}\<close>. When \<^verbatim>\<open>url\<close> is missing
  and \<^verbatim>\<open>cookie\<close> is given and not empty, variant A answers 400 with
  \<^verbatim>\<open>{error: "Missing 'url' parameter"}\<close> and variant B answers 200 with its API
  description. No request goes out in any of these cases.
\<close>

theorem front_door_checks:
  "(js_not (q_url q) \<and> js_not (q_cookie q) \<longrightarrow>
      handler_A P q = ([], \<lparr>status = 200, body = Document infoDocument_A\<rparr>) \<and>
      handler_B P q = ([], \<lparr>status = 200, body = Document infoDocument_B\<rparr>)) \<and>
   (q_url q = Some u \<and> u \<noteq> [] \<and> js_not (q_cookie q) \<longrightarrow>
      handler_A P q = ([], \<lparr>status = 401, body = ErrorJson ''Missing 'cookie' parameter''\<rparr>) \<and>
      handler_B P q = ([], \<lparr>status = 401, body = ErrorJson ''Missing 'cookie' parameter''\<rparr>)) \<and>
   (js_not (q_url q) \<and> q_cookie q = Some ck \<and> ck \<noteq> [] \<longrightarrow>
      handler_A P q = ([], \<lparr>status = 400, body = ErrorJson ''Missing 'url' parameter''\<rparr>) \<and>
      handler_B P q = ([], \<lparr>status = 200, body = Document infoDocument_B\<rparr>)) \<and>
   js_not None \<and> js_not (Some [])"
  by (simp add: handler_A_def handler_B_def js_not_def)

theorem front_door_checks_witness:
  "handler_A (runtime net_down) \<lparr>q_url = None, q_cookie = None, q_host = None\<rparr> =
     ([], \<lparr>status = 200, body = Document infoDocument_A\<rparr>) \<and>
   handler_B (runtime net_down) \<lparr>q_url = None, q_cookie = None, q_host = None\<rparr> =
     ([], \<lparr>status = 200, body = Document infoDocument_B\<rparr>) \<and>
   handler_A (runtime net_down) \<lparr>q_url = Some ''https://www.terabox.com/s/1abcXYZ'', q_cookie = None, q_host = None\<rparr> =
     ([], \<lparr>status = 401, body = ErrorJson ''Missing 'cookie' parameter''\<rparr>) \<and>
   handler_B (runtime net_down) \<lparr>q_url = Some ''https://www.terabox.com/s/1abcXYZ'', q_cookie = None, q_host = None\<rparr> =
     ([], \<lparr>status = 401, body = ErrorJson ''Missing 'cookie' parameter''\<rparr>) \<and>
   handler_A (runtime net_down) \<lparr>q_url = None, q_cookie = Some ''abc123'', q_host = None\<rparr> =
     ([], \<lparr>status = 400, body = ErrorJson ''Missing 'url' parameter''\<rparr>) \<and>
   handler_B (runtime net_down) \<lparr>q_url = None, q_cookie = Some ''abc123'', q_host = None\<rparr> =
     ([], \<lparr>status = 200, body = Document infoDocument_B\<rparr>)"
  using
    front_door_checks [of "\<lparr>q_url = None, q_cookie = None, q_host = None\<rparr>" "runtime net_down"]
    front_door_checks [of "\<lparr>q_url = Some ''https://www.terabox.com/s/1abcXYZ'', q_cookie = None, q_host = None\<rparr>"
      "runtime net_down" "''https://www.terabox.com/s/1abcXYZ''"]
    front_door_checks [of "\<lparr>q_url = None, q_cookie = Some ''abc123'', q_host = None\<rparr>" "runtime net_down" _ "''abc123''"]
  by (simp add: js_not_def)

text \<open>
  C7 as stated fails for \<^verbatim>\<open>GET /?url=\<close>: the parameter \<^verbatim>\<open>url\<close> is
  present, \<^verbatim>\<open>cookie\<close> is absent, and both variants answer 200 with the API
  description, not 401.
\<close>

theorem front_door_counterexample:
  "q_url \<lparr>q_url = Some [], q_cookie = None, q_host = None\<rparr> \<noteq> None \<and>
   q_cookie \<lparr>q_url = Some [], q_cookie = None, q_host = None\<rparr> = None \<and>
   handler_A (runtime net_down) \<lparr>q_url = Some [], q_cookie = None, q_host = None\<rparr> =
     ([], \<lparr>status = 200, body = Document infoDocument_A\<rparr>) \<and>
   handler_B (runtime net_down) \<lparr>q_url = Some [], q_cookie = None, q_host = None\<rparr> =
     ([], \<lparr>status = 200, body = Document infoDocument_B\<rparr>)"
  by (simp add: handler_A_def handler_B_def js_not_def)

section \<open>Cookie normalization\<close>

lemma normalizeCookie_idem: "normalizeCookie (normalizeCookie c) = normalizeCookie c"
  by (simp add: normalizeCookie_def startsWith_def)

lemma handler_A_runs:
  assumes "q_url q = Some u" and "u \<noteq> []" and "q_cookie q = Some ck" and "ck \<noteq> []"
  shows "handler_A P q =
     (fst (checkUrl_A P u (normalizeCookie ck) (orDefault (q_host q) DEFAULT_HOST)),
      \<lparr>status = 200,
       body = ResultJson (snd (checkUrl_A P u (normalizeCookie ck) (orDefault (q_host q) DEFAULT_HOST)))\<rparr>)"
  using assms by (simp add: handler_A_def js_not_def case_prod_beta Let_def)

lemma handler_B_runs:
  assumes "q_url q = Some u" and "u \<noteq> []" and "q_cookie q = Some ck" and "ck \<noteq> []"
    and "isTeraboxUrl u"
  shows "handler_B P q =
     (fst (checkUrl_B P u (normalizeCookie ck) (orDefault (q_host q) DEFAULT_HOST)),
      \<lparr>status = 200,
       body = ResultJson (snd (checkUrl_B P u (normalizeCookie ck) (orDefault (q_host q) DEFAULT_HOST)))\<rparr>)"
  using assms by (simp add: handler_B_def js_not_def case_prod_beta Let_def)

text \<open>
  C9. For a request whose \<^verbatim>\<open>url\<close> and \<^verbatim>\<open>cookie\<close> parameters are given
  and not empty, let \<open>k\<close> be the cookie \<open>c\<close> itself when \<open>c\<close> starts with
  \<^verbatim>\<open>ndus=\<close>, and \<^verbatim>\<open>ndus=\<close> followed by \<open>c\<close> when it does not.
  Then \<open>k\<close> is the normalised cookie, normalising \<open>k\<close> again gives \<open>k\<close>, and
  when an identifier is extracted the handler of variant A sends exactly the primary request
  with \<open>k\<close>, and the handler of variant B (for a URL that passes its check) the primary
  request with \<open>k\<close>, followed by the fallback request when the primary lookup fails.
  The \<^verbatim>\<open>Cookie\<close> header of the primary request is \<open>k\<close>; the fallback request
  has none.
\<close>

theorem cookie_normalization:
  assumes u: "q_url q = Some u" "u \<noteq> []" and c: "q_cookie q = Some c" "c \<noteq> []"
    and h: "host = orDefault (q_host q) DEFAULT_HOST"
    and k: "k = (if startsWith c ''ndus='' then c else ''ndus='' @ c)"
  shows "normalizeCookie c = k \<and> normalizeCookie k = k \<and>
         (extractShortUrl_A P u = Inr sa \<longrightarrow>
            fst (handler_A P q) = [primaryRequest (stripPrefix1 sa) k host]) \<and>
         (isTeraboxUrl u \<and> extractShortUrl_B (convertToDefaultHost P u host) = Some sb \<longrightarrow>
            fst (handler_B P q) =
              primaryRequest sb k host #
                (if success (snd (fetchShortUrlInfo_B P sb k host)) then [] else [fallbackRequest sb])) \<and>
         map_of (req_headers (primaryRequest s k host)) ''Cookie'' = Some k \<and>
         map_of (req_headers (fallbackRequest s)) ''Cookie'' = None"
proof (intro conjI impI)
  from k show n: "normalizeCookie c = k" by (simp add: normalizeCookie_def)
  from normalizeCookie_idem [of c] n show "normalizeCookie k = k" by simp
  {
    assume "extractShortUrl_A P u = Inr sa"
    from checkUrl_A_sent [OF this, of k host] handler_A_runs [OF u c, of P] n h
    show "fst (handler_A P q) = [primaryRequest (stripPrefix1 sa) k host]" by simp
  }
  {
    assume a: "isTeraboxUrl u \<and> extractShortUrl_B (convertToDefaultHost P u host) = Some sb"
    then have t: "isTeraboxUrl u" and e: "extractShortUrl_B (convertToDefaultHost P u host) = Some sb"
      by simp_all
    from checkUrl_B_sent [OF e, of k] handler_B_runs [OF u c t, of P] n h
    show "fst (handler_B P q) =
              primaryRequest sb k host #
                (if success (snd (fetchShortUrlInfo_B P sb k host)) then [] else [fallbackRequest sb])"
      by simp
  }
  show "map_of (req_headers (primaryRequest s k host)) ''Cookie'' = Some k"
    by (simp add: primaryRequest_def)
  show "map_of (req_headers (fallbackRequest s)) ''Cookie'' = None"
    by (simp add: fallbackRequest_def)
qed

theorem cookie_normalization_witness:
  "normalizeCookie ''abc123'' = ''ndus=abc123'' \<and>
   normalizeCookie ''ndus=abc123'' = ''ndus=abc123'' \<and>
   fst (handler_A (runtime net_one_file)
        \<lparr>q_url = Some ''https://www.terabox.com/s/1abcXYZ'', q_cookie = Some ''abc123'', q_host = None\<rparr>) =
     [primaryRequest ''abcXYZ'' ''ndus=abc123'' DEFAULT_HOST] \<and>
   fst (handler_A (runtime net_one_file)
        \<lparr>q_url = Some ''https://www.terabox.com/s/1abcXYZ'', q_cookie = Some ''ndus=abc123'', q_host = None\<rparr>) =
     [primaryRequest ''abcXYZ'' ''ndus=abc123'' DEFAULT_HOST] \<and>
   fst (handler_B (runtime net_one_file)
        \<lparr>q_url = Some ''https://www.terabox.com/s/1abcXYZ'', q_cookie = Some ''abc123'', q_host = None\<rparr>) =
     [primaryRequest ''abcXYZ'' ''ndus=abc123'' DEFAULT_HOST] \<and>
   fst (handler_B (runtime net_down)
        \<lparr>q_url = Some ''https://www.terabox.com/s/1abcXYZ'', q_cookie = Some ''ndus=abc123'', q_host = None\<rparr>) =
     [primaryRequest ''abcXYZ'' ''ndus=abc123'' DEFAULT_HOST, fallbackRequest ''abcXYZ''] \<and>
   map_of (req_headers (primaryRequest ''abcXYZ'' ''ndus=abc123'' DEFAULT_HOST)) ''Cookie'' = Some ''ndus=abc123''"
proof -
  let ?u = "''https://www.terabox.com/s/1abcXYZ''"
  let ?q1 = "\<lparr>q_url = Some ?u, q_cookie = Some ''abc123'', q_host = None\<rparr>"
  let ?q2 = "\<lparr>q_url = Some ?u, q_cookie = Some ''ndus=abc123'', q_host = None\<rparr>"
  have u1: "q_url ?q1 = Some ?u" and u2: "q_url ?q2 = Some ?u" and ne: "?u \<noteq> []"
    and c1: "q_cookie ?q1 = Some ''abc123''" "''abc123'' \<noteq> []"
    and c2: "q_cookie ?q2 = Some ''ndus=abc123''" "''ndus=abc123'' \<noteq> []"
    and h1: "DEFAULT_HOST = orDefault (q_host ?q1) DEFAULT_HOST"
    and h2: "DEFAULT_HOST = orDefault (q_host ?q2) DEFAULT_HOST"
    by (simp_all add: orDefault_def)
  have k1: "''ndus=abc123'' = (if startsWith ''abc123'' ''ndus='' then ''abc123'' else ''ndus='' @ ''abc123'')"
    and k2: "''ndus=abc123'' = (if startsWith ''ndus=abc123'' ''ndus='' then ''ndus=abc123'' else ''ndus='' @ ''ndus=abc123'')"
    by (simp_all add: startsWith_def)
  have st: "stripPrefix1 ''1abcXYZ'' = ''abcXYZ''" by (simp add: stripPrefix1_def startsWith_def)
  note a1 = cookie_normalization [OF u1 ne c1 h1 k1, of "runtime net_one_file" "''1abcXYZ''" "''abcXYZ''" "''abcXYZ''"]
  note a2 = cookie_normalization [OF u2 ne c2 h2 k2, of "runtime net_one_file" "''1abcXYZ''" "''abcXYZ''" "''abcXYZ''"]
  note b2 = cookie_normalization [OF u2 ne c2 h2 k2, of "runtime net_down" "''1abcXYZ''" "''abcXYZ''" "''abcXYZ''"]
  have xb: "isTeraboxUrl ?u \<and>
      extractShortUrl_B (convertToDefaultHost (runtime net) ?u DEFAULT_HOST) = Some ''abcXYZ''" for net
    using example_is_terabox extract_example_B [of net] by simp
  from a1 have 1: "normalizeCookie ''abc123'' = ''ndus=abc123''" by (rule conjunct1)
  from a2 have 2: "normalizeCookie ''ndus=abc123'' = ''ndus=abc123''" by (rule conjunct1)
  from a1 [THEN conjunct2, THEN conjunct2, THEN conjunct1, THEN mp, OF extract_example_A] st
  have 3: "fst (handler_A (runtime net_one_file) ?q1) = [primaryRequest ''abcXYZ'' ''ndus=abc123'' DEFAULT_HOST]"
    by simp
  from a2 [THEN conjunct2, THEN conjunct2, THEN conjunct1, THEN mp, OF extract_example_A] st
  have 4: "fst (handler_A (runtime net_one_file) ?q2) = [primaryRequest ''abcXYZ'' ''ndus=abc123'' DEFAULT_HOST]"
    by simp
  from a1 [THEN conjunct2, THEN conjunct2, THEN conjunct2, THEN conjunct1, THEN mp, OF xb]
    example_primary_ok [of "''abcXYZ''" "''ndus=abc123''" DEFAULT_HOST]
  have 5: "fst (handler_B (runtime net_one_file) ?q1) = [primaryRequest ''abcXYZ'' ''ndus=abc123'' DEFAULT_HOST]"
    by simp
  from b2 [THEN conjunct2, THEN conjunct2, THEN conjunct2, THEN conjunct1, THEN mp, OF xb]
    example_primary_down(1) [of "''abcXYZ''" "''ndus=abc123''" DEFAULT_HOST]
  have 6: "fst (handler_B (runtime net_down) ?q2) =
     [primaryRequest ''abcXYZ'' ''ndus=abc123'' DEFAULT_HOST, fallbackRequest ''abcXYZ'']"
    by simp
  from a1 have 7: "map_of (req_headers (primaryRequest ''abcXYZ'' ''ndus=abc123'' DEFAULT_HOST)) ''Cookie'' =
      Some ''ndus=abc123''" by simp
  from 1 2 3 4 5 6 7 show ?thesis by blast
qed

end
